theory Spec2Isabelle
  imports Main
begin

section \<open>JavaScript values used by the completion engine\<close>

text \<open>
  The engine is the \<open>DjangoQL\<close> object of \<open>src/index.js\<close>. Strings are lists of
  characters, \<open>null\<close> and \<open>undefined\<close> of a string-valued slot are both \<open>None\<close>, and
  an object used as a dictionary (the schema, a model of the schema) is the collection
  of its own properties: a map for \<open>this.models\<close>, an association list in insertion
  order for one model, whose keys \<open>Object.keys\<close> enumerates. Reading a property
  \<open>obj[key]\<close> of such an object looks at its own properties first and then at the
  members of \<open>Object.prototype\<close>, which every plain object inherits. A \<open>TypeError\<close>
  thrown by reading a property of \<open>undefined\<close> or \<open>null\<close> is the error value of a sum
  type.
\<close>

datatype error = TypeError

definition truthy :: "string option \<Rightarrow> bool" where
  \<comment> \<open>the test \<open>if (v)\<close> on a string or null: null and the empty string are falsy\<close>
  "truthy v = (case v of None \<Rightarrow> False | Some s \<Rightarrow> s \<noteq> [])"

definition propertyKey :: "string option \<Rightarrow> string" where
  \<comment> \<open>\<open>obj[v]\<close> converts the key to a string: \<open>obj[null]\<close> reads the property \<open>"null"\<close>\<close>
  "propertyKey v = (case v of None \<Rightarrow> ''null'' | Some s \<Rightarrow> s)"

fun split :: "string \<Rightarrow> char \<Rightarrow> string list" where
  \<comment> \<open>\<open>s.split(sep)\<close> for a one-character separator; the result is never empty\<close>
  "split [] sep = [[]]"
| "split (c # cs) sep =
     (if c = sep then [] # split cs sep
      else (case split cs sep of [] \<Rightarrow> [[c]] | p # ps \<Rightarrow> (c # p) # ps))"

fun join :: "string list \<Rightarrow> string \<Rightarrow> string" where
  "join [] sep = []"
| "join [p] sep = p"
| "join (p # q # ps) sep = p @ sep @ join (q # ps) sep"

definition slice :: "string \<Rightarrow> nat \<Rightarrow> nat \<Rightarrow> string" where
  \<comment> \<open>\<open>s.slice(a, b)\<close> for non-negative \<open>a\<close> and \<open>b\<close>\<close>
  "slice s a b = drop a (take b s)"

fun indexOfFrom :: "string \<Rightarrow> string \<Rightarrow> int \<Rightarrow> int" where
  "indexOfFrom [] p i = (if p = [] then i else - 1)"
| "indexOfFrom (c # cs) p i =
     (if take (length p) (c # cs) = p then i else indexOfFrom cs p (i + 1))"

definition indexOf :: "string \<Rightarrow> string \<Rightarrow> int" where
  \<comment> \<open>\<open>s.indexOf(p)\<close>: the first position where \<open>p\<close> occurs in \<open>s\<close>, or \<open>-1\<close>\<close>
  "indexOf s p = indexOfFrom s p 0"

definition lastIndexOf0 :: "string \<Rightarrow> string \<Rightarrow> int" where
  \<comment> \<open>\<open>s.lastIndexOf(p, 0)\<close>: the search starts at position 0 and goes backwards,
      so only an occurrence at position 0 is found\<close>
  "lastIndexOf0 s p = (if take (length p) s = p then 0 else - 1)"

definition isWhitespaceChar :: "char \<Rightarrow> bool" where
  \<comment> \<open>the character class of \<open>whitespaceRegex\<close>: space, tab, vertical tab, form feed,
      no-break space\<close>
  "isWhitespaceChar c \<longleftrightarrow> c \<in> set [CHR '' '', CHR 0x09, CHR 0x0B, CHR 0x0C, CHR 0xA0]"

definition whitespaceMatch :: "string \<Rightarrow> string option" where
  \<comment> \<open>\<open>s.match(whitespaceRegex)\<close>: the regular expression is not anchored, so the
      match is the first run of whitespace anywhere in \<open>s\<close>; \<open>None\<close> is \<open>null\<close>\<close>
  "whitespaceMatch s =
     (let rest = dropWhile (\<lambda>c. \<not> isWhitespaceChar c) s
      in if rest = [] then None else Some (takeWhile isWhitespaceChar rest))"

section \<open>Data model\<close>

text \<open>
  The records keep the property names of the source where a name is free. The
  properties \<open>name\<close>, \<open>value\<close>, \<open>start\<close> and \<open>end\<close> of a token are \<open>tokName\<close>,
  \<open>tokValue\<close>, \<open>tokStart\<close> and \<open>tokEnd\<close>; the property \<open>text\<close> of a suggestion is
  \<open>itemText\<close>; the property \<open>loading\<close> of a cache entry is \<open>cachedLoading\<close>; the
  properties of a delivered page are \<open>dataItems\<close>, \<open>dataPage\<close> and \<open>dataHasNext\<close>. The
  options of a field are absent, \<open>true\<close> (the values are fetched) or an array. The
  model stack holds what the source pushes, which may be \<open>null\<close>.
\<close>

datatype fieldoptions = NoOptions | OptionsTrue | OptionsArray "string list"

record fielddef =
  type :: string
  relation :: "string option"
  options :: fieldoptions
  nullable :: bool

type_synonym modeldef = "(string \<times> fielddef) list"

definition hasOptions :: "fielddef \<Rightarrow> bool" where
  \<comment> \<open>the test \<open>field.options\<close>: \<open>true\<close> and every array, also the empty one, are truthy\<close>
  "hasOptions f \<longleftrightarrow> options f \<noteq> NoOptions"

text \<open>
  What reading a property gives is a field definition of the schema or a value that
  comes from the JavaScript engine. Of the latter the code only tests whether it is
  \<open>undefined\<close> or \<open>null\<close> (\<open>Absent\<close>: reading a property of it throws), falsy with
  properties of its own, as \<open>0\<close> is (\<open>Falsy\<close>), or truthy, as a function is
  (\<open>Truthy\<close>); such a value has no property \<open>type\<close>, \<open>relation\<close>, \<open>options\<close> or
  \<open>nullable\<close>. What \<open>this.models[key]\<close> gives is a model of the schema or a member of
  \<open>Object.prototype\<close>, which is given by what reading each of its properties gives.
\<close>

datatype reading = Absent | Falsy | Truthy

datatype jsvalue = Plain reading | Definition fielddef

datatype modelobject = Model modeldef | Member "string \<Rightarrow> error + reading"

definition truthyValue :: "jsvalue \<Rightarrow> bool" where
  \<comment> \<open>the test \<open>if (f)\<close> on what a property read gave\<close>
  "truthyValue v = (case v of Definition d \<Rightarrow> True | Plain r \<Rightarrow> r = Truthy)"

definition nullish :: "jsvalue \<Rightarrow> bool" where
  \<comment> \<open>\<open>undefined\<close> or \<open>null\<close>, of which no property can be read\<close>
  "nullish v = (case v of Definition d \<Rightarrow> False | Plain r \<Rightarrow> r = Absent)"

definition typeOf :: "jsvalue \<Rightarrow> string option" where
  \<comment> \<open>\<open>f.type\<close>, \<open>None\<close> for \<open>undefined\<close>\<close>
  "typeOf v = (case v of Definition d \<Rightarrow> Some (type d) | Plain r \<Rightarrow> None)"

definition relationOf :: "jsvalue \<Rightarrow> string option" where
  \<comment> \<open>\<open>f.relation\<close>\<close>
  "relationOf v = (case v of Definition d \<Rightarrow> relation d | Plain r \<Rightarrow> None)"

definition optionsOf :: "jsvalue \<Rightarrow> fieldoptions" where
  \<comment> \<open>\<open>f.options\<close>\<close>
  "optionsOf v = (case v of Definition d \<Rightarrow> options d | Plain r \<Rightarrow> NoOptions)"

definition nullableOf :: "jsvalue \<Rightarrow> bool" where
  \<comment> \<open>the test \<open>f.nullable\<close>\<close>
  "nullableOf v = (case v of Definition d \<Rightarrow> nullable d | Plain r \<Rightarrow> False)"

record token =
  tokName :: string
  tokValue :: string
  tokStart :: nat
  tokEnd :: nat

record suggestion =
  itemText :: string
  snippetBefore :: string
  snippetAfter :: string
  suggestionText :: string

definition suggestion :: "string \<Rightarrow> string \<Rightarrow> string \<Rightarrow> string option \<Rightarrow> suggestion" where
  "suggestion t snipBefore snipAfter explanation =
     \<lparr>itemText = t, snippetBefore = snipBefore, snippetAfter = snipAfter,
      suggestionText = (case explanation of None \<Rightarrow> t | Some e \<Rightarrow> t @ ''<i>'' @ e @ ''</i>'')\<rparr>"

record resolved =
  modelStack :: "string option list"
  model :: "string option"
  field :: "string option"

datatype scope = ScopeField | ScopeComparison | ScopeValue | ScopeLogical

record ctx = resolved +
  prefix :: string
  scope :: "scope option"
  currentFullToken :: "token option"

record cacheEntry =
  items :: "string list option"
  page :: "int option"
  has_next :: bool
  cachedLoading :: bool

record pageData =
  dataItems :: "string list"
  dataPage :: int
  dataHasNext :: bool

subsection \<open>The cache of value pages\<close>

text \<open>
  Modelled from the spec: the class \<open>LRUCache\<close> of \<open>src/lru-cache.js\<close>, which
  \<open>index.js\<close> imports. It is a store of bounded capacity keyed by strings; reading a
  key makes it the most recently used one, and writing a key when the store is full
  evicts the least recently used key. The entries are kept most recently used first.
\<close>

record lruCache =
  capacity :: nat
  entries :: "(string \<times> cacheEntry) list"

definition cacheGet :: "lruCache \<Rightarrow> string \<Rightarrow> cacheEntry option \<times> lruCache" where
  \<comment> \<open>Modelled from the spec: \<open>LRUCache.get\<close>, the value of the key, which becomes the
      most recently used one\<close>
  "cacheGet c k =
     (case map_of (entries c) k of
        None \<Rightarrow> (None, c)
      | Some v \<Rightarrow> (Some v, c\<lparr>entries := (k, v) # filter (\<lambda>kv. fst kv \<noteq> k) (entries c)\<rparr>))"

definition cacheSet :: "lruCache \<Rightarrow> string \<Rightarrow> cacheEntry \<Rightarrow> lruCache" where
  \<comment> \<open>Modelled from the spec: \<open>LRUCache.set\<close>, the key becomes the most recently used
      one and the least recently used keys beyond the capacity are evicted\<close>
  "cacheSet c k v =
     c\<lparr>entries := take (capacity c) ((k, v) # filter (\<lambda>kv. fst kv \<noteq> k) (entries c))\<rparr>"

subsection \<open>The engine object\<close>

text \<open>
  \<open>lexer\<close> is \<open>this.lexer.setInput(s).lexAll()\<close>: the tokens of a string with their
  offsets, produced by the external lexer package from the rules of \<open>index.js\<close>.
  \<open>debouncedLoad\<close> holds the argument of the last pending call of
  \<open>debouncedLoadFieldOptions\<close>, which runs later, off the current call.
  \<open>objectPrototype\<close> is no property of the engine object: it is \<open>Object.prototype\<close> of
  the JavaScript engine that runs the code, the members that the schema and its models
  inherit, each with what reading its properties gives. It differs between JavaScript
  engines and is never written by the code.
\<close>

record djangoql =
  currentModel :: "string option"
  models :: "string \<rightharpoonup> modeldef"
  suggestionsAPIUrl :: "string option"
  lexer :: "string \<Rightarrow> token list"
  prefix :: string
  suggestions :: "suggestion list"
  selected :: "nat option"
  valuesCaseSensitive :: bool
  highlightCaseSensitive :: bool
  completionEnabled :: bool
  textareaValue :: string
  selectionStart :: nat
  selectionEnd :: nat
  suggestionsCache :: lruCache
  loading :: bool
  debouncedLoad :: "bool option"
  objectPrototype :: "string \<rightharpoonup> (string \<Rightarrow> error + reading)"

definition inherits :: "djangoql \<Rightarrow> string \<Rightarrow> bool" where
  \<comment> \<open>the name is one of a member of \<open>Object.prototype\<close>\<close>
  "inherits this k = (case objectPrototype this k of None \<Rightarrow> False | Some member \<Rightarrow> True)"

definition modelAt :: "djangoql \<Rightarrow> string option \<Rightarrow> modelobject option" where
  \<comment> \<open>\<open>this.models[key]\<close>, \<open>None\<close> for \<open>undefined\<close>\<close>
  "modelAt this key =
     (case models this (propertyKey key) of
        Some m \<Rightarrow> Some (Model m)
      | None \<Rightarrow> map_option Member (objectPrototype this (propertyKey key)))"

definition propertyAt :: "djangoql \<Rightarrow> modelobject \<Rightarrow> string option \<Rightarrow> error + jsvalue" where
  \<comment> \<open>\<open>obj[key]\<close> on what \<open>this.models[...]\<close> gave; the members of \<open>Object.prototype\<close>
      are functions and objects, which are truthy\<close>
  "propertyAt this obj key =
     (case obj of
        Model m \<Rightarrow>
          (case map_of m (propertyKey key) of
             Some d \<Rightarrow> Inr (Definition d)
           | None \<Rightarrow> Inr (Plain (if inherits this (propertyKey key) then Truthy else Absent)))
      | Member properties \<Rightarrow>
          (case properties (propertyKey key) of
             Inl e \<Rightarrow> Inl e
           | Inr r \<Rightarrow> Inr (Plain r)))"

definition fieldAt :: "djangoql \<Rightarrow> string option \<Rightarrow> string option \<Rightarrow> error + jsvalue" where
  \<comment> \<open>\<open>this.models[model][key]\<close>\<close>
  "fieldAt this mdl key =
     (case modelAt this mdl of
        None \<Rightarrow> Inl TypeError
      | Some obj \<Rightarrow> propertyAt this obj key)"

section \<open>Tokenizer\<close>

text \<open>
  The rules are those added to the lexer in \<open>index.js\<close>, in the same order; each one
  gives the length of the match of its regular expression at the start of the input.
  The string rule excludes the backslash, the double quote and the line terminators
  from the plain characters of a string; of the line terminators only line feed and
  carriage return exist among the characters below 256 that \<open>string\<close> holds.
\<close>

definition isDigit :: "char \<Rightarrow> bool" where
  "isDigit c \<longleftrightarrow> c \<in> set ''0123456789''"

definition isNameStart :: "char \<Rightarrow> bool" where
  "isNameStart c \<longleftrightarrow> c \<in> set ''_ABCDEFGHIJKLMNOPQRSTUVWXYZabcdefghijklmnopqrstuvwxyz''"

definition isNameChar :: "char \<Rightarrow> bool" where
  "isNameChar c \<longleftrightarrow> isNameStart c \<or> isDigit c"

definition isHexDigit :: "char \<Rightarrow> bool" where
  "isHexDigit c \<longleftrightarrow> c \<in> set ''0123456789ABCDEFabcdef''"

definition matchLiteral :: "string \<Rightarrow> string \<Rightarrow> nat option" where
  "matchLiteral lit s = (if take (length lit) s = lit then Some (length lit) else None)"

definition matchWord :: "string \<Rightarrow> string \<Rightarrow> nat option" where
  "matchWord w s =
     (if take (length w) s = w
         \<and> (case drop (length w) s of [] \<Rightarrow> True | c # cs \<Rightarrow> \<not> isNameChar c)
      then Some (length w) else None)"

definition matchWhitespace :: "string \<Rightarrow> nat option" where
  "matchWhitespace s =
     (let n = length (takeWhile isWhitespaceChar s) in if n = 0 then None else Some n)"

fun nameTail :: "string \<Rightarrow> nat" where
  "nameTail [] = 0"
| "nameTail [c] = (if isNameChar c then 1 else 0)"
| "nameTail (c # d # ds) =
     (if isNameChar c then 1 + nameTail (d # ds)
      else if c = CHR ''.'' \<and> isNameStart d then 2 + nameTail ds
      else 0)"

definition matchName :: "string \<Rightarrow> nat option" where
  "matchName s =
     (case s of [] \<Rightarrow> None
      | c # cs \<Rightarrow> if isNameStart c then Some (1 + nameTail cs) else None)"

fun stringBody :: "string \<Rightarrow> nat option" where
  "stringBody [] = None"
| "stringBody (c # cs) =
     (if c = CHR 0x22 then Some 1
      else if c = CHR 0x5C
      then (case cs of
              [] \<Rightarrow> None
            | e # es \<Rightarrow>
                if e \<in> set [CHR 0x5C, CHR 0x22, CHR ''/'', CHR ''b'', CHR ''f'', CHR ''n'',
                             CHR ''r'', CHR ''t'']
                then map_option (\<lambda>n. n + 2) (stringBody es)
                else if e = CHR ''u'' \<and> 4 \<le> length es \<and> list_all isHexDigit (take 4 es)
                then map_option (\<lambda>n. n + 6) (stringBody (drop 4 es))
                else None)
      else if c \<in> set [CHR 0x0A, CHR 0x0D] then None
      else map_option Suc (stringBody cs))"

definition matchString :: "string \<Rightarrow> nat option" where
  "matchString s =
     (case s of [] \<Rightarrow> None
      | c # cs \<Rightarrow> if c = CHR 0x22 then map_option Suc (stringBody cs) else None)"

definition digitsLen :: "string \<Rightarrow> nat" where
  "digitsLen s = length (takeWhile isDigit s)"

definition signLen :: "string \<Rightarrow> string \<Rightarrow> nat" where
  "signLen signs s = (case s of [] \<Rightarrow> 0 | c # cs \<Rightarrow> if c \<in> set signs then 1 else 0)"

definition matchInt :: "string \<Rightarrow> nat option" where
  "matchInt s =
     (let sign = signLen ''-'' s
      in case drop sign s of
           [] \<Rightarrow> None
         | c # cs \<Rightarrow>
             if c = CHR ''0'' then Some (sign + 1)
             else if isDigit c then Some (sign + 1 + digitsLen cs)
             else None)"

definition matchFraction :: "string \<Rightarrow> nat option" where
  "matchFraction s =
     (case s of [] \<Rightarrow> None
      | c # cs \<Rightarrow> if c = CHR ''.'' \<and> 0 < digitsLen cs then Some (1 + digitsLen cs) else None)"

definition matchExponent :: "string \<Rightarrow> nat option" where
  "matchExponent s =
     (case s of [] \<Rightarrow> None
      | c # cs \<Rightarrow>
          if c \<in> set ''eE''
          then (let sign = signLen ''+-'' cs
                in if 0 < digitsLen (drop sign cs)
                   then Some (1 + sign + digitsLen (drop sign cs)) else None)
          else None)"

definition matchFloat :: "string \<Rightarrow> nat option" where
  "matchFloat s =
     (case matchInt s of
        None \<Rightarrow> None
      | Some n \<Rightarrow>
          (case matchFraction (drop n s) of
             Some f \<Rightarrow>
               (case matchExponent (drop (n + f) s) of
                  Some e \<Rightarrow> Some (n + f + e)
                | None \<Rightarrow> Some (n + f))
           | None \<Rightarrow> map_option (\<lambda>e. n + e) (matchExponent (drop n s))))"

definition lexerRules :: "(string \<times> (string \<Rightarrow> nat option)) list" where
  "lexerRules =
     [('''', matchWhitespace),
      (''DOT'', matchLiteral ''.''),
      (''COMMA'', matchLiteral '',''),
      (''OR'', matchWord ''or''),
      (''AND'', matchWord ''and''),
      (''NOT'', matchWord ''not''),
      (''IN'', matchWord ''in''),
      (''STARTSWITH'', matchWord ''startswith''),
      (''ENDSWITH'', matchWord ''endswith''),
      (''TRUE'', matchWord ''True''),
      (''FALSE'', matchWord ''False''),
      (''NONE'', matchWord ''None''),
      (''NAME'', matchName),
      (''STRING_VALUE'', matchString),
      (''INT_VALUE'', matchInt),
      (''FLOAT_VALUE'', matchFloat),
      (''PAREN_L'', matchLiteral ''(''),
      (''PAREN_R'', matchLiteral '')''),
      (''EQUALS'', matchLiteral ''=''),
      (''NOT_EQUALS'', matchLiteral ''!=''),
      (''GREATER'', matchLiteral ''>''),
      (''GREATER_EQUAL'', matchLiteral ''>=''),
      (''LESS'', matchLiteral ''<''),
      (''LESS_EQUAL'', matchLiteral ''<=''),
      (''CONTAINS'', matchLiteral ''~''),
      (''NOT_CONTAINS'', matchLiteral ''!~'')]"

text \<open>
  Modelled from the spec: the driver of the lexer, which is the external package
  \<open>lex\<close>. At each position every rule is tried and the longest match wins, the
  earlier rule on a tie; whitespace is matched and not emitted; a character that no
  rule matches is skipped. \<open>lexAll\<close> of \<open>index.js\<close> adds the offsets: \<open>end\<close> is the
  position after the match and \<open>start\<close> is \<open>end\<close> minus the length of the token value.
\<close>

fun scan :: "(string \<times> (string \<Rightarrow> nat option)) list \<Rightarrow> string \<Rightarrow> (string \<times> nat) option" where
  \<comment> \<open>Modelled from the spec: the rule that wins at the start of the input and the
      length of its match\<close>
  "scan [] s = None"
| "scan ((name, rule) # rules) s =
     (case rule s of
        None \<Rightarrow> scan rules s
      | Some n \<Rightarrow>
          (case scan rules s of
             None \<Rightarrow> Some (name, n)
           | Some (name', n') \<Rightarrow> if n < n' then Some (name', n') else Some (name, n)))"

fun lexFrom :: "nat \<Rightarrow> nat \<Rightarrow> string \<Rightarrow> token list" where
  \<comment> \<open>Modelled from the spec: the tokens of the input from position \<open>i\<close> on, after the
      \<open>skip\<close> characters that the last match still covers\<close>
  "lexFrom i skip [] = []"
| "lexFrom i skip (c # cs) =
     (if 0 < skip then lexFrom (i + 1) (skip - 1) cs
      else (case scan lexerRules (c # cs) of
              None \<Rightarrow> lexFrom (i + 1) 0 cs
            | Some (name, n) \<Rightarrow>
                (if name = [] then []
                 else (let lexeme = take n (c # cs);
                           v = (if name = ''STRING_VALUE'' then slice lexeme 1 (length lexeme - 1)
                                else lexeme)
                       in [\<lparr>tokName = name, tokValue = v,
                             tokStart = i + n - length v, tokEnd = i + n\<rparr>]))
                @ lexFrom (i + 1) (n - 1) cs))"

definition lexAll :: "string \<Rightarrow> token list" where
  "lexAll s = lexFrom 0 0 s"

section \<open>Name resolution\<close>

fun resolveParts :: "djangoql \<Rightarrow> string list \<Rightarrow> resolved \<Rightarrow> error + resolved" where
  \<comment> \<open>the \<open>for\<close> loop of \<open>resolveName\<close> over the remaining name parts\<close>
  "resolveParts this [] r = Inr r"
| "resolveParts this (p # ps) r =
     (case fieldAt this (model r) (Some p) of
        Inl e \<Rightarrow> Inl e
      | Inr f \<Rightarrow>
          if \<not> truthyValue f then Inr (r\<lparr>model := None, field := None\<rparr>)
          else if typeOf f = Some ''relation''
          then resolveParts this ps
                 (r\<lparr>modelStack := modelStack r @ [relationOf f], model := relationOf f,
                    field := None\<rparr>)
          else resolveParts this ps (r\<lparr>field := Some p\<rparr>))"

definition loopStart :: "string option \<Rightarrow> resolved" where
  \<comment> \<open>the variables of \<open>resolveName\<close> when its loop starts\<close>
  "loopStart m = \<lparr>modelStack = [m], model = m, field = None\<rparr>"

definition resolveName :: "djangoql \<Rightarrow> string \<Rightarrow> error + resolved" where
  "resolveName this name =
     (let nameParts = split name CHR ''.'';
          m = currentModel this
      in if truthy m
         then resolveParts this nameParts (loopStart m)
         else Inr \<lparr>modelStack = [], model = m, field = None\<rparr>)"

section \<open>Context resolution\<close>

definition arrayAt :: "'a list \<Rightarrow> nat \<Rightarrow> 'a option" where
  \<comment> \<open>\<open>xs[i]\<close>: reading past the end of an array gives \<open>undefined\<close>\<close>
  "arrayAt xs i = (if i < length xs then Some (xs ! i) else None)"

record cursor =
  lastToken :: "token option"
  nextToLastToken :: "token option"
  rawPrefix :: string
  whitespace :: "string option"
  fullToken :: "token option"

definition cursorState :: "djangoql \<Rightarrow> string \<Rightarrow> nat \<Rightarrow> cursor" where
  \<comment> \<open>the first part of \<open>getContext\<close>, up to the test of the prefix against \<open>(\<close>: the
      tokens before the cursor and the text typed after the last of them\<close>
  "cursorState this text cursorPos =
     (let tokens0 = lexer this (slice text 0 cursorPos);
          allTokens = lexer this text;
          onCursor = (tokens0 \<noteq> [] \<and> cursorPos \<le> tokEnd (last tokens0));
          tokens = (if onCursor then butlast tokens0 else tokens0);
          lastT = (if tokens = [] then None else Some (last tokens));
          prefix0 = slice text (case lastT of None \<Rightarrow> 0 | Some t \<Rightarrow> tokEnd t) cursorPos;
          ws = whitespaceMatch prefix0;
          prefix1 = (case ws of None \<Rightarrow> prefix0 | Some w \<Rightarrow> drop (length w) prefix0)
      in \<lparr>lastToken = lastT,
          nextToLastToken = (if 1 < length tokens then Some (tokens ! (length tokens - 2)) else None),
          rawPrefix = (if prefix1 = ''('' then [] else prefix1),
          whitespace = ws,
          fullToken = (if onCursor then arrayAt allTokens (length tokens0 - 1) else None)\<rparr>)"

definition logicalTokens :: "string list" where
  "logicalTokens = [''AND'', ''OR'']"

definition comparisonTokens :: "string list" where
  "comparisonTokens = [''EQUALS'', ''NOT_EQUALS'', ''CONTAINS'', ''NOT_CONTAINS'',
     ''GREATER_EQUAL'', ''GREATER'', ''LESS_EQUAL'', ''LESS'']"

definition valueTokens :: "string list" where
  "valueTokens = [''PAREN_R'', ''INT_VALUE'', ''FLOAT_VALUE'', ''STRING_VALUE'']"

definition nullContext :: "djangoql \<Rightarrow> cursor \<Rightarrow> ctx" where
  \<comment> \<open>the initial values of the variables of \<open>getContext\<close>\<close>
  "nullContext this cur =
     \<lparr>modelStack = [currentModel this], model = None, field = None,
      ctx.prefix = rawPrefix cur, scope = None, currentFullToken = fullToken cur\<rparr>"

definition entersFieldScope :: "cursor \<Rightarrow> bool" where
  \<comment> \<open>the condition of the branch that sets the scope to \<open>field\<close>\<close>
  "entersFieldScope cur \<longleftrightarrow>
     (case lastToken cur of
        None \<Rightarrow> True
      | Some lt \<Rightarrow>
          (tokName lt \<in> set logicalTokens \<and> whitespace cur \<noteq> None)
          \<or> (rawPrefix cur = ''.'' \<and> whitespace cur = None)
          \<or> (tokName lt = ''PAREN_L''
              \<and> (case nextToLastToken cur of
                    None \<Rightarrow> True
                  | Some nt \<Rightarrow> tokName nt \<in> set logicalTokens)))"

definition fieldScope :: "djangoql \<Rightarrow> string \<Rightarrow> nat \<Rightarrow> cursor \<Rightarrow> error + ctx" where
  \<comment> \<open>the body of the \<open>field\<close> branch\<close>
  "fieldScope this text cursorPos cur =
     (case (if rawPrefix cur = ''.''
            then (case lastToken cur of
                    None \<Rightarrow> Inl TypeError
                  | Some lt \<Rightarrow> Inr (slice text (tokStart lt) cursorPos))
            else Inr (rawPrefix cur)) of
        Inl e \<Rightarrow> Inl e
      | Inr prefix1 \<Rightarrow>
          (let c = (nullContext this cur)
                     \<lparr>ctx.prefix := prefix1, scope := Some ScopeField, model := currentModel this\<rparr>;
               nameParts = split prefix1 CHR ''.''
           in if 1 < length nameParts
              then (case resolveName this (join (butlast nameParts) ''.'') of
                      Inl e \<Rightarrow> Inl e
                    | Inr resolvedName \<Rightarrow>
                        if truthy (model resolvedName) \<and> \<not> truthy (field resolvedName)
                        then Inr (c\<lparr>ctx.prefix := last nameParts, model := model resolvedName,
                                    modelStack := modelStack resolvedName\<rparr>)
                        else Inr (c\<lparr>ctx.prefix := last nameParts, scope := None, model := None\<rparr>))
              else Inr c))"

definition valueScope :: "djangoql \<Rightarrow> cursor \<Rightarrow> token \<Rightarrow> error + ctx" where
  \<comment> \<open>the body of the \<open>value\<close> branch; \<open>nt\<close> is the next-to-last token\<close>
  "valueScope this cur nt =
     (case resolveName this (tokValue nt) of
        Inl e \<Rightarrow> Inl e
      | Inr resolvedName \<Rightarrow>
          if truthy (model resolvedName)
          then (let c = (nullContext this cur)
                          \<lparr>scope := Some ScopeValue, model := model resolvedName,
                           field := field resolvedName, modelStack := modelStack resolvedName\<rparr>
                in case rawPrefix cur of
                     [] \<Rightarrow> Inr c
                   | ch # rest \<Rightarrow>
                       if ch = CHR 0x22
                       then (case fieldAt this (model resolvedName) (field resolvedName) of
                               Inl e \<Rightarrow> Inl e
                             | Inr f \<Rightarrow>
                                 if nullish f then Inl TypeError
                                 else if typeOf f = Some ''str'' \<or> optionsOf f \<noteq> NoOptions
                                 then Inr (c\<lparr>ctx.prefix := rest\<rparr>)
                                 else Inr c)
                       else Inr c)
          else Inr (nullContext this cur))"

definition comparisonScope :: "djangoql \<Rightarrow> cursor \<Rightarrow> token \<Rightarrow> error + ctx" where
  \<comment> \<open>the body of the \<open>comparison\<close> branch; \<open>lt\<close> is the last token\<close>
  "comparisonScope this cur lt =
     (case resolveName this (tokValue lt) of
        Inl e \<Rightarrow> Inl e
      | Inr resolvedName \<Rightarrow>
          if truthy (model resolvedName)
          then Inr ((nullContext this cur)
                      \<lparr>scope := Some ScopeComparison, model := model resolvedName,
                       field := field resolvedName, modelStack := modelStack resolvedName\<rparr>)
          else Inr (nullContext this cur))"

definition getContext :: "djangoql \<Rightarrow> string \<Rightarrow> nat \<Rightarrow> error + ctx" where
  "getContext this text cursorPos =
     (let cur = cursorState this text cursorPos
      in if rawPrefix cur = '')'' \<and> whitespace cur = None
         then Inr (nullContext this cur)
         else if entersFieldScope cur
         then fieldScope this text cursorPos cur
         else (case lastToken cur of
                 None \<Rightarrow> Inr (nullContext this cur)
               | Some lt \<Rightarrow>
                   if whitespace cur = None then Inr (nullContext this cur)
                   else if (case nextToLastToken cur of
                              None \<Rightarrow> False
                            | Some nt \<Rightarrow> tokName nt = ''NAME'')
                           \<and> tokName lt \<in> set comparisonTokens
                   then (case nextToLastToken cur of
                           None \<Rightarrow> Inr (nullContext this cur)
                         | Some nt \<Rightarrow> valueScope this cur nt)
                   else if tokName lt = ''NAME''
                   then comparisonScope this cur lt
                   else if tokName lt \<in> set valueTokens
                   then Inr ((nullContext this cur)\<lparr>scope := Some ScopeLogical\<rparr>)
                   else Inr (nullContext this cur)))"

section \<open>Options of the field under the cursor\<close>

definition contextField :: "djangoql \<Rightarrow> ctx \<Rightarrow> error + jsvalue" where
  \<comment> \<open>\<open>model = this.models[ctx.model]; field = ctx.field && model[ctx.field]\<close>: what
      the field of the context names in its model, and the falsy \<open>ctx.field\<close> itself
      (\<open>null\<close> or the empty string) when the context has no field\<close>
  "contextField this c =
     (if truthy (field c) then fieldAt this (model c) (field c)
      else Inr (Plain (case field c of None \<Rightarrow> Absent | Some f \<Rightarrow> Falsy)))"

record fieldOptions =
  foCacheKey :: "string option"
  foContext :: ctx
  foOptions :: "string list option"

definition getCurrentFieldOptions :: "djangoql \<Rightarrow> error + fieldOptions option" where
  "getCurrentFieldOptions this =
     (case getContext this (textareaValue this) (selectionStart this) of
        Inl e \<Rightarrow> Inl e
      | Inr c \<Rightarrow>
          (case contextField this c of
             Inl e \<Rightarrow> Inl e
           | Inr f \<Rightarrow>
               if scope c \<noteq> Some ScopeValue \<or> \<not> truthyValue f then Inr None
               else (case optionsOf f of
                       NoOptions \<Rightarrow> Inr None
                     | OptionsArray xs \<Rightarrow>
                         Inr (Some \<lparr>foCacheKey = None, foContext = c, foOptions = Some xs\<rparr>)
                     | OptionsTrue \<Rightarrow>
                         if \<not> truthy (suggestionsAPIUrl this) then Inr None
                         else Inr (Some \<lparr>foCacheKey =
                                 Some (propertyKey (model c) @ ''.'' @ propertyKey (field c)
                                       @ ''|'' @ ctx.prefix c),
                               foContext = c, foOptions = None\<rparr>))))"

definition toLowerChar :: "char \<Rightarrow> char" where
  \<comment> \<open>\<open>toLowerCase\<close> on one character below 256: the letters A to Z and the capital
      letters of Latin-1\<close>
  "toLowerChar c =
     (let n = (of_char c :: nat)
      in if (65 \<le> n \<and> n \<le> 90) \<or> (192 \<le> n \<and> n \<le> 222 \<and> n \<noteq> 215)
         then char_of (n + 32) else c)"

definition toLowerCase :: "string \<Rightarrow> string" where
  "toLowerCase s = map toLowerChar s"

definition emptyEntry :: cacheEntry where
  \<comment> \<open>the object \<open>{}\<close> that stands for a missing cache entry\<close>
  "emptyEntry = \<lparr>items = None, page = None, has_next = False, cachedLoading = False\<rparr>"

definition pageOrZero :: "cacheEntry \<Rightarrow> int" where
  \<comment> \<open>\<open>cache.page || 0\<close>\<close>
  "pageOrZero e = (case page e of None \<Rightarrow> 0 | Some p \<Rightarrow> p)"

definition itemsOrEmpty :: "cacheEntry \<Rightarrow> string list" where
  \<comment> \<open>\<open>cache.items || []\<close>\<close>
  "itemsOrEmpty e = (case items e of None \<Rightarrow> [] | Some xs \<Rightarrow> xs)"

definition populateFieldOptions :: "djangoql \<Rightarrow> bool \<Rightarrow> error + djangoql" where
  "populateFieldOptions this loadMore =
     (case getCurrentFieldOptions this of
        Inl e \<Rightarrow> Inl e
      | Inr None \<Rightarrow> Inr this
      | Inr (Some fo) \<Rightarrow>
          (let p = ctx.prefix (foContext fo);
               quoted = map (\<lambda>f. suggestion f [CHR 0x22] [CHR 0x22] None)
           in case foOptions fo of
                Some opts \<Rightarrow>
                  Inr (this\<lparr>highlightCaseSensitive := valuesCaseSensitive this,
                            suggestions := quoted
                              (if valuesCaseSensitive this
                               then filter (\<lambda>item. 0 \<le> indexOf item p) opts
                               else filter (\<lambda>item. 0 \<le> indexOf (toLowerCase item) (toLowerCase p))
                                      opts)\<rparr>)
              | None \<Rightarrow>
                  (case foCacheKey fo of
                     None \<Rightarrow> Inr (this\<lparr>suggestions := []\<rparr>)
                   | Some key \<Rightarrow>
                       (let (found, cache1) = cacheGet (suggestionsCache this) key;
                            cached = (case found of None \<Rightarrow> emptyEntry | Some e \<Rightarrow> e);
                            this1 = this\<lparr>suggestions := [], suggestionsCache := cache1\<rparr>;
                            this2 = (if \<not> cachedLoading cached
                                        \<and> (pageOrZero cached = 0 \<or> (loadMore \<and> has_next cached))
                                     then this1\<lparr>debouncedLoad := Some loadMore\<rparr> else this1)
                        in if itemsOrEmpty cached = [] then Inr this2
                           else Inr (this2\<lparr>highlightCaseSensitive := valuesCaseSensitive this,
                                          suggestions := quoted (itemsOrEmpty cached)\<rparr>)))))"

section \<open>Loading pages of remote values\<close>

record request =
  reqKey :: string
  reqField :: string
  reqSearch :: string
  reqPage :: "int option"

definition loadFieldOptions :: "djangoql \<Rightarrow> bool \<Rightarrow> error + djangoql \<times> request option" where
  \<comment> \<open>the request that \<open>getJson\<close> sends is returned with the engine; the callback
      \<open>success\<close> of the request is \<open>pageDelivered\<close> below\<close>
  "loadFieldOptions this loadMore =
     (case getCurrentFieldOptions this of
        Inl e \<Rightarrow> Inl e
      | Inr found \<Rightarrow>
          (case (case found of None \<Rightarrow> None
                 | Some fo \<Rightarrow> map_option (\<lambda>k. (k, foContext fo)) (foCacheKey fo)) of
             None \<Rightarrow> Inr (this, None)
           | Some (key, c) \<Rightarrow>
               (let (hit, cache1) = cacheGet (suggestionsCache this) key;
                    cached = (case hit of None \<Rightarrow> emptyEntry | Some e \<Rightarrow> e);
                    more = (loadMore \<and> has_next cached)
                in if \<not> more \<and> pageOrZero cached \<noteq> 0
                   then Inr (this\<lparr>suggestionsCache := cache1\<rparr>, None)
                   else (case populateFieldOptions
                                (this\<lparr>suggestionsCache :=
                                         cacheSet cache1 key (cached\<lparr>cachedLoading := True\<rparr>),
                                       loading := True\<rparr>) False of
                           Inl e \<Rightarrow> Inl e
                         | Inr this1 \<Rightarrow>
                             Inr (this1,
                                  Some \<lparr>reqKey = key,
                                        reqField = propertyKey (model c) @ ''.''
                                                   @ propertyKey (field c),
                                        reqSearch = ctx.prefix c,
                                        reqPage = (if more then Some (pageOrZero cached + 1)
                                                   else None)\<rparr>)))))"

definition applyPage :: "lruCache \<Rightarrow> string \<Rightarrow> pageData \<Rightarrow> lruCache \<times> bool" where
  \<comment> \<open>the callback \<open>success\<close> of \<open>loadFieldOptions\<close> up to \<open>suggestionsCache.set\<close>; the
      flag tells whether the page was applied\<close>
  "applyPage c key data =
     (let (hit, cache1) = cacheGet c key;
          cache = (case hit of None \<Rightarrow> emptyEntry | Some e \<Rightarrow> e)
      in if dataPage data - 1 \<noteq> pageOrZero cache then (cache1, False)
         else (cacheSet cache1 key
                 \<lparr>items = Some (itemsOrEmpty cache @ dataItems data),
                  page = Some (dataPage data), has_next = dataHasNext data,
                  cachedLoading = False\<rparr>, True))"

definition pageDelivered :: "djangoql \<Rightarrow> string \<Rightarrow> pageData \<Rightarrow> error + djangoql" where
  \<comment> \<open>a response with status 200 arrives: \<open>onload\<close> of \<open>getJson\<close> clears \<open>loading\<close> and
      calls \<open>success\<close> with the parsed page\<close>
  "pageDelivered this key data =
     (case applyPage (suggestionsCache this) key data of
        (c, False) \<Rightarrow> Inr (this\<lparr>suggestionsCache := c, loading := False\<rparr>)
      | (c, True) \<Rightarrow> populateFieldOptions (this\<lparr>suggestionsCache := c, loading := False\<rparr>) False)"

definition cachedItems :: "lruCache \<Rightarrow> string \<Rightarrow> string list" where
  \<comment> \<open>the item list the cache holds for a key, empty when there is none\<close>
  "cachedItems c key = (case map_of (entries c) key of None \<Rightarrow> [] | Some e \<Rightarrow> itemsOrEmpty e)"

definition cachedPage :: "lruCache \<Rightarrow> string \<Rightarrow> int" where
  \<comment> \<open>the page number the cache holds for a key, 0 when there is none\<close>
  "cachedPage c key = (case map_of (entries c) key of None \<Rightarrow> 0 | Some e \<Rightarrow> pageOrZero e)"

section \<open>Suggestions\<close>

definition lastElement :: "'a list \<Rightarrow> 'a option" where
  \<comment> \<open>\<open>xs.slice(-1)[0]\<close>: the last element, \<open>undefined\<close> for the empty array\<close>
  "lastElement xs = (if xs = [] then None else Some (last xs))"

definition suppressed :: "string option list \<Rightarrow> fielddef \<Rightarrow> bool" where
  \<comment> \<open>the condition under which the filter of the \<open>field\<close> scope returns \<open>false\<close>\<close>
  "suppressed stack f \<longleftrightarrow>
     type f = ''relation'' \<and> relation f \<in> set stack \<and> lastElement stack \<noteq> Some (relation f)"

definition fieldSuggestions :: "modeldef \<Rightarrow> string option list \<Rightarrow> suggestion list" where
  \<comment> \<open>\<open>Object.keys(model).filter(...).map(...)\<close>; every key has a definition, the
      case \<open>None\<close> is never reached\<close>
  "fieldSuggestions m stack =
     map (\<lambda>f. suggestion f []
                (case map_of m f of
                   None \<Rightarrow> '' ''
                 | Some d \<Rightarrow> if type d = ''relation'' then ''.'' else '' '') None)
       (filter (\<lambda>f. case map_of m f of None \<Rightarrow> True | Some d \<Rightarrow> \<not> suppressed stack d)
          (map fst m))"

definition comparisonSuggestions :: "jsvalue \<Rightarrow> suggestion list" where
  \<comment> \<open>the suggestions of the \<open>comparison\<close> scope before they are filtered; \<open>nonBool\<close> is
      the test \<open>field && field.type !== 'bool'\<close>\<close>
  "comparisonSuggestions fd =
     (let plain = (\<lambda>t. (t, None :: string option));
          nonBool = (truthyValue fd \<and> typeOf fd \<noteq> Some ''bool'');
          operators =
            [plain ''='', (''!='', Some ''is not equal to'')]
            @ (if nonBool
               then (if typeOf fd \<in> set [Some ''date'', Some ''datetime'']
                     then [(''~'', Some ''contains''), (''!~'', Some ''does not contain'')]
                     else if typeOf fd = Some ''str''
                     then [(''~'', Some ''contains''), (''!~'', Some ''does not contain''),
                           plain ''startswith'', plain ''not startswith'',
                           plain ''endswith'', plain ''not endswith'']
                     else [])
                    @ (if typeOf fd \<noteq> Some ''str''
                       then [plain ''>'', plain ''>='', plain ''<'', plain ''<='']
                       else [])
               else []);
          snippetAfter1 =
            (if nonBool
                \<and> (typeOf fd \<in> set [Some ''date'', Some ''datetime''] \<or> typeOf fd = Some ''str''
                     \<or> optionsOf fd \<noteq> NoOptions)
             then [CHR '' '', CHR 0x22, CHR ''|'', CHR 0x22] else '' '')
      in map (\<lambda>(t, explanation). suggestion t [] snippetAfter1 explanation) operators
         @ (if nonBool
            then (let snippetAfter2 =
                        (if typeOf fd \<in> set [Some ''str'', Some ''date'', Some ''datetime'']
                            \<or> optionsOf fd \<noteq> NoOptions
                         then [CHR '' '', CHR ''('', CHR 0x22, CHR ''|'', CHR 0x22, CHR '')'']
                         else '' (|)'')
                  in [suggestion ''in'' [] snippetAfter2 None,
                      suggestion ''not in'' [] snippetAfter2 None])
            else []))"

definition scopeSuggestions ::
  "djangoql \<Rightarrow> ctx \<Rightarrow> jsvalue \<Rightarrow> error + djangoql \<times> bool" where
  \<comment> \<open>the \<open>switch\<close> of \<open>generateSuggestions\<close>; the flag tells that the search filter is the
      one of the \<open>comparison\<close> scope, which tests the start of the text. A member of
      \<open>Object.prototype\<close> has no enumerable property, so \<open>Object.keys\<close> of it is empty\<close>
  "scopeSuggestions this c fd =
     (case scope c of
        Some ScopeField \<Rightarrow>
          (case modelAt this (model c) of
             None \<Rightarrow> Inl TypeError
           | Some (Model m) \<Rightarrow>
               Inr (this\<lparr>suggestions := fieldSuggestions m (modelStack c)\<rparr>, False)
           | Some (Member properties) \<Rightarrow> Inr (this\<lparr>suggestions := []\<rparr>, False))
      | Some ScopeComparison \<Rightarrow>
          Inr (this\<lparr>suggestions := comparisonSuggestions fd\<rparr>, True)
      | Some ScopeValue \<Rightarrow>
          if \<not> truthyValue fd
          then Inr (this\<lparr>suggestions := [suggestion ''None'' [] '' '' None]\<rparr>, False)
          else if optionsOf fd \<noteq> NoOptions
          then (case populateFieldOptions (this\<lparr>djangoql.prefix := ctx.prefix c\<rparr>) False of
                  Inl e \<Rightarrow> Inl e
                | Inr this1 \<Rightarrow> Inr (this1, False))
          else if typeOf fd = Some ''bool''
          then Inr (this\<lparr>suggestions :=
                      [suggestion ''True'' [] '' '' None, suggestion ''False'' [] '' '' None]
                      @ (if nullableOf fd then [suggestion ''None'' [] '' '' None] else [])\<rparr>,
                    False)
          else if typeOf fd = Some ''unknown''
          then Inr (this\<lparr>djangoql.prefix := [], suggestions := []\<rparr>, False)
          else Inr (this, False)
      | Some ScopeLogical \<Rightarrow>
          Inr (this\<lparr>suggestions := [suggestion ''and'' [] '' '' None,
                                     suggestion ''or'' [] '' '' None]\<rparr>, False)
      | None \<Rightarrow> Inr (this\<lparr>djangoql.prefix := [], suggestions := []\<rparr>, False))"

definition searchFilter :: "djangoql \<Rightarrow> bool \<Rightarrow> suggestion \<Rightarrow> bool" where
  \<comment> \<open>both filters read \<open>this.prefix\<close> when they are applied\<close>
  "searchFilter this anchored item =
     (if anchored then lastIndexOf0 (itemText item) (djangoql.prefix this) = 0
      else 0 \<le> indexOf (itemText item) (djangoql.prefix this))"

definition generateSuggestions :: "djangoql \<Rightarrow> error + djangoql" where
  "generateSuggestions this =
     (if \<not> completionEnabled this then Inr (this\<lparr>djangoql.prefix := [], suggestions := []\<rparr>)
      else if \<not> truthy (currentModel this) then Inr this
      else if selectionStart this \<noteq> selectionEnd this
      then Inr (this\<lparr>djangoql.prefix := [], suggestions := []\<rparr>)
      else (let this1 = this\<lparr>highlightCaseSensitive := True\<rparr>
            in case getContext this1 (textareaValue this1) (selectionStart this1) of
                 Inl e \<Rightarrow> Inl e
               | Inr c \<Rightarrow>
                   (let this2 = this1\<lparr>djangoql.prefix := ctx.prefix c\<rparr>
                    in case contextField this2 c of
                         Inl e \<Rightarrow> Inl e
                       | Inr fd \<Rightarrow>
                           (case scopeSuggestions this2 c fd of
                              Inl e \<Rightarrow> Inl e
                            | Inr (this3, anchored) \<Rightarrow>
                                (let kept = filter (searchFilter this3 anchored) (suggestions this3)
                                 in Inr (this3\<lparr>suggestions := kept,
                                               selected := (if length kept = 1 then Some 0
                                                            else None)\<rparr>))))))"

section \<open>Schemas and engines of the examples\<close>

definition plainField :: "string \<Rightarrow> string option \<Rightarrow> fielddef" where
  \<comment> \<open>a field as the schema of the tests writes it: a type and a relation only\<close>
  "plainField t r = \<lparr>type = t, relation = r, options = NoOptions, nullable = False\<rparr>"

definition testModels :: "(string \<times> modeldef) list" where
  \<comment> \<open>the schema of \<open>tests/DjangoQL.test.js\<close>\<close>
  "testModels =
     [(''auth.group'',
         [(''user'', plainField ''relation'' (Some ''auth.user'')),
          (''id'', plainField ''int'' None),
          (''name'', plainField ''str'' None)]),
      (''auth.user'',
         [(''book'', plainField ''relation'' (Some ''core.book'')),
          (''id'', plainField ''int'' None),
          (''password'', plainField ''str'' None),
          (''last_login'', plainField ''datetime'' None),
          (''is_superuser'', plainField ''bool'' None),
          (''username'', plainField ''str'' None),
          (''first_name'', plainField ''str'' None),
          (''last_name'', plainField ''str'' None),
          (''email'', plainField ''str'' None),
          (''is_staff'', plainField ''bool'' None),
          (''is_active'', plainField ''bool'' None),
          (''date_joined'', plainField ''datetime'' None),
          (''groups'', plainField ''relation'' (Some ''auth.group''))]),
      (''core.book'',
         [(''id'', plainField ''int'' None),
          (''name'', plainField ''str'' None),
          (''author'', plainField ''relation'' (Some ''auth.user'')),
          (''written'', plainField ''datetime'' None),
          (''is_published'', plainField ''bool'' None),
          (''rating'', plainField ''float'' None),
          (''price'', plainField ''float'' None)])]"

definition categoryModels :: "(string \<times> modeldef) list" where
  \<comment> \<open>a model with a relation to itself\<close>
  "categoryModels =
     [(''core.category'',
         [(''id'', plainField ''int'' None),
          (''name'', plainField ''str'' None),
          (''parent'', plainField ''relation'' (Some ''core.category''))])]"

definition publisherModels :: "(string \<times> modeldef) list" where
  \<comment> \<open>a relation whose target \<open>core.publisher\<close> is not a key of the schema\<close>
  "publisherModels =
     [(''core.book'',
         [(''id'', plainField ''int'' None),
          (''publisher'', plainField ''relation'' (Some ''core.publisher''))])]"

definition unnamedModels :: "(string \<times> modeldef) list" where
  \<comment> \<open>a relation whose target is the model with the empty name\<close>
  "unnamedModels =
     [(''core.book'',
         [(''id'', plainField ''int'' None),
          (''link'', plainField ''relation'' (Some []))]),
      ([], [(''id'', plainField ''int'' None)])]"

definition ratedModels :: "(string \<times> modeldef) list" where
  \<comment> \<open>an integer field with a list of options\<close>
  "ratedModels =
     [(''core.book'',
         [(''id'', plainField ''int'' None),
          (''stars'', (plainField ''int'' None)\<lparr>options := OptionsArray [''1'', ''2'', ''3'']\<rparr>)])]"

definition constructorModels :: "(string \<times> modeldef) list" where
  \<comment> \<open>a relation whose target is not a key of the schema and is the name of a member of
      \<open>Object.prototype\<close>\<close>
  "constructorModels =
     [(''core.book'',
         [(''id'', plainField ''int'' None),
          (''publisher'', plainField ''relation'' (Some ''constructor''))])]"

text \<open>
  The engines of the examples run where \<open>Object.prototype\<close> is the one of the 2017
  edition of the ECMAScript standard, with its annex for web browsers. Its members are
  functions, except \<open>__proto__\<close>, which reads as \<open>Object.prototype\<close> itself. A function
  has a \<open>name\<close> and a \<open>length\<close>, the number of its parameters, which is falsy when it
  is 0; it inherits \<open>apply\<close>, \<open>bind\<close> and \<open>call\<close> from \<open>Function.prototype\<close> and the
  members of \<open>Object.prototype\<close> after them; reading its \<open>caller\<close> or \<open>arguments\<close>
  throws. The member \<open>constructor\<close> is the function \<open>Object\<close>, which has a \<open>prototype\<close>
  and the functions \<open>Object.keys\<close> and the like. The prototype of \<open>Object.prototype\<close>
  is \<open>null\<close>.
\<close>

definition objectPrototypeNames :: "string list" where
  "objectPrototypeNames =
     [''constructor'', ''hasOwnProperty'', ''isPrototypeOf'', ''propertyIsEnumerable'',
      ''toLocaleString'', ''toString'', ''valueOf'', ''__proto__'', ''__defineGetter__'',
      ''__defineSetter__'', ''__lookupGetter__'', ''__lookupSetter__'']"

definition objectFunctions :: "string list" where
  \<comment> \<open>the properties of the function \<open>Object\<close> that are its own\<close>
  "objectFunctions =
     [''prototype'', ''assign'', ''create'', ''defineProperties'', ''defineProperty'',
      ''entries'', ''freeze'', ''getOwnPropertyDescriptor'', ''getOwnPropertyDescriptors'',
      ''getOwnPropertyNames'', ''getOwnPropertySymbols'', ''getPrototypeOf'', ''is'',
      ''isExtensible'', ''isFrozen'', ''isSealed'', ''keys'', ''preventExtensions'', ''seal'',
      ''setPrototypeOf'', ''values'']"

definition standardPrototype :: "string \<rightharpoonup> (string \<Rightarrow> error + reading)" where
  "standardPrototype k =
     (if k \<notin> set objectPrototypeNames then None
      else Some (\<lambda>p.
        if k = ''__proto__''
        then Inr (if p \<in> set objectPrototypeNames \<and> p \<noteq> ''__proto__'' then Truthy else Absent)
        else if p \<in> set [''caller'', ''arguments''] then Inl TypeError
        else if p = ''length''
        then Inr (if k \<in> set [''toLocaleString'', ''toString'', ''valueOf''] then Falsy
                  else Truthy)
        else if p \<in> set [''name'', ''apply'', ''bind'', ''call''] \<or> p \<in> set objectPrototypeNames
        then Inr Truthy
        else if k = ''constructor'' \<and> p \<in> set objectFunctions then Inr Truthy
        else Inr Absent))"

definition typing :: "string option \<Rightarrow> (string \<times> modeldef) list \<Rightarrow> string \<Rightarrow> djangoql" where
  \<comment> \<open>an engine with the given current model and schema, whose text area holds the
      text with the cursor at its end and nothing selected\<close>
  "typing cm ms text =
     \<lparr>currentModel = cm, models = map_of ms, suggestionsAPIUrl = None, lexer = lexAll,
      djangoql.prefix = [], suggestions = [], selected = None,
      valuesCaseSensitive = False, highlightCaseSensitive = True,
      completionEnabled = True, textareaValue = text,
      selectionStart = length text, selectionEnd = length text,
      suggestionsCache = \<lparr>capacity = 100, entries = []\<rparr>,
      loading = False, debouncedLoad = None, objectPrototype = standardPrototype\<rparr>"

definition cachedEngine :: djangoql where
  \<comment> \<open>an engine whose cache holds the first page of the values of a field\<close>
  "cachedEngine =
     (typing (Some ''core.book'') testModels [])
       \<lparr>suggestionsCache :=
          \<lparr>capacity = 100,
           entries = [(''core.book.name|'',
                       \<lparr>items = Some [''Anna Karenina'', ''War and Peace''], page = Some 1,
                        has_next = True, cachedLoading = False\<rparr>)]\<rparr>\<rparr>"

definition offered :: "djangoql \<Rightarrow> string list option" where
  \<comment> \<open>the texts of the suggestions after \<open>generateSuggestions\<close>, \<open>None\<close> when it throws\<close>
  "offered this =
     (case generateSuggestions this of
        Inl e \<Rightarrow> None
      | Inr this' \<Rightarrow> Some (map itemText (suggestions this')))"

definition contextAt ::
  "string \<Rightarrow> nat \<Rightarrow> (string \<times> scope option \<times> string option \<times> string option) option" where
  \<comment> \<open>what the tests compare of the context at a position of a text, on their schema\<close>
  "contextAt text pos =
     (case getContext (typing (Some ''core.book'') testModels text) text pos of
        Inl e \<Rightarrow> None
      | Inr c \<Rightarrow> Some (ctx.prefix c, scope c, model c, field c))"

definition resolveAt :: "string \<Rightarrow> (string option \<times> string option) option" where
  \<comment> \<open>what the tests compare of the resolution of a name, on their schema\<close>
  "resolveAt name =
     (case resolveName (typing (Some ''core.book'') testModels []) name of
        Inl e \<Rightarrow> None
      | Inr r \<Rightarrow> Some (model r, field r))"

definition closedSchema :: "djangoql \<Rightarrow> bool" where
  \<comment> \<open>the invariant of the schema: the current model and the target of every relation
      are keys of \<open>models\<close>\<close>
  "closedSchema this \<longleftrightarrow>
     models this (propertyKey (currentModel this)) \<noteq> None
     \<and> (\<forall>k m f d. models this k = Some m \<and> map_of m f = Some d \<and> type d = ''relation''
            \<longrightarrow> models this (propertyKey (relation d)) \<noteq> None)"

section \<open>The examples of the test suite\<close>

text \<open>
  The cases of \<open>tests/DjangoQL.test.js\<close> for the lexer, for \<open>resolveName\<close>, for
  \<open>getContext\<close> and for the suggestions after a relation, evaluated on the model.
\<close>

lemma test_lexer_punctuation:
  "map tokName (lexAll [CHR ''('', CHR '')'', CHR '' '', CHR ''.'', CHR '','', CHR '' '', CHR ''='',
       CHR '' '', CHR ''!'', CHR ''='', CHR '' '', CHR ''>'', CHR 0x09, CHR '' '', CHR ''>'', CHR ''='',
       CHR '' '', CHR ''<'', CHR '' '', CHR ''<'', CHR ''='', CHR '' '', CHR ''~'', CHR '' '', CHR ''!'',
       CHR ''~''])
   = [''PAREN_L'', ''PAREN_R'', ''DOT'', ''COMMA'', ''EQUALS'', ''NOT_EQUALS'', ''GREATER'',
      ''GREATER_EQUAL'', ''LESS'', ''LESS_EQUAL'', ''CONTAINS'', ''NOT_CONTAINS'']"
  by code_simp

lemma test_lexer_names:
  "map (\<lambda>t. (tokName t, tokValue t)) (lexAll ''a myVar_42 __LOL__ _ _0'')
   = [(''NAME'', ''a''), (''NAME'', ''myVar_42''), (''NAME'', ''__LOL__''), (''NAME'', ''_''),
      (''NAME'', ''_0'')]"
  by code_simp

lemma test_lexer_reserved_words:
  "map (\<lambda>t. (tokName t, tokValue t)) (lexAll ''True False None or and in'')
   = [(''TRUE'', ''True''), (''FALSE'', ''False''), (''NONE'', ''None''), (''OR'', ''or''),
      (''AND'', ''and''), (''IN'', ''in'')]"
  by code_simp

lemma test_lexer_strings:
  "map (\<lambda>t. (tokName t, tokValue t))
     (lexAll ([CHR 0x22, CHR 0x22, CHR '' '', CHR 0x22, CHR ''4'', CHR ''2'', CHR 0x22, CHR '' '',
               CHR 0x22, CHR 0x5C, CHR ''t'', CHR 0x5C, CHR ''n'', CHR 0x5C] @ ''u0042 ''
              @ [CHR 0x5C, CHR 0x22, CHR '' '', CHR ''^'', CHR 0x22]))
   = [(''STRING_VALUE'', []), (''STRING_VALUE'', ''42''),
      (''STRING_VALUE'', [CHR 0x5C, CHR ''t'', CHR 0x5C, CHR ''n'', CHR 0x5C] @ ''u0042 ''
                         @ [CHR 0x5C, CHR 0x22, CHR '' '', CHR ''^''])]"
  by code_simp

lemma test_lexer_numbers:
  "map (\<lambda>t. (tokName t, tokValue t)) (lexAll ''0 -0 42 -42 -0.5e+42 42.0 2E64 2.71e-0002'')
   = [(''INT_VALUE'', ''0''), (''INT_VALUE'', ''-0''), (''INT_VALUE'', ''42''),
      (''INT_VALUE'', ''-42''), (''FLOAT_VALUE'', ''-0.5e+42''), (''FLOAT_VALUE'', ''42.0''),
      (''FLOAT_VALUE'', ''2E64''), (''FLOAT_VALUE'', ''2.71e-0002'')]"
  by code_simp

lemma test_resolveName_known:
  "map resolveAt [''price'', ''author'', ''author.first_name'', ''author.groups'',
                  ''author.groups.id'', ''author.groups.user'', ''author.groups.user.email'']
   = [Some (Some ''core.book'', Some ''price''), Some (Some ''auth.user'', None),
      Some (Some ''auth.user'', Some ''first_name''), Some (Some ''auth.group'', None),
      Some (Some ''auth.group'', Some ''id''), Some (Some ''auth.user'', None),
      Some (Some ''auth.user'', Some ''email'')]"
  by code_simp

lemma test_resolveName_unknown:
  "map resolveAt [''gav'', ''author.gav'', ''author.groups.gav'']
   = [Some (None, None), Some (None, None), Some (None, None)]"
  by code_simp

text \<open>
  A name that a model does not define and that objects inherit is found by
  \<open>this.models[model][part]\<close>: it is recorded as a field and the loop goes on in the
  same model. A relation whose target is missing from the schema and is such a name
  leads to the inherited member, and the parts after it are read from that member.
\<close>

lemma resolveName_inherited_names:
  "map resolveAt [''constructor'', ''author.toString'', ''constructor.id'', ''toString.gav'']
   = [Some (Some ''core.book'', Some ''constructor''),
      Some (Some ''auth.user'', Some ''toString''),
      Some (Some ''core.book'', Some ''id''), Some (None, None)]"
  by code_simp

lemma resolveName_relation_to_inherited_name:
  "resolveName (typing (Some ''core.book'') constructorModels []) ''publisher.name''
     = Inr \<lparr>modelStack = [Some ''core.book'', Some ''constructor''],
            model = Some ''constructor'', field = Some ''name''\<rparr>
   \<and> resolveName (typing (Some ''core.book'') constructorModels []) ''publisher.gav''
     = Inr \<lparr>modelStack = [Some ''core.book'', Some ''constructor''], model = None,
            field = None\<rparr>"
  by code_simp

lemma inherited_name_as_field:
  "offered (typing (Some ''core.book'') testModels ''constructor '')
     = Some [''='', ''!='', ''>'', ''>='', ''<'', ''<='', ''in'', ''not in'']
   \<and> contextAt ''constructor = \"'' 15
     = Some ([CHR 0x22], Some ScopeValue, Some ''core.book'', Some ''constructor'')
   \<and> offered (typing (Some ''core.book'') constructorModels ''publisher.'') = Some []"
  by code_simp

lemma test_getContext_scopes:
  "map (\<lambda>(text, pos). contextAt text pos)
     [([], 0), (''just some text after cursor'', 0), (''random_word'', 4), (''random'', 6),
      (''id'', 2), (''id '', 3), (''id >'', 4), (''id > '', 5), (''id > 1'', 6),
      (''id > 1 '', 7), (''id > 1 hmm'', 10), (''id > 1 and '', 11),
      (''id > 1 and author.'', 18), (''id > 1 and author.i'', 19), (''(id = 1) '', 9),
      (''(id = 1) a'', 10), (''(id = 1)'', 1), (''(id = 1)'', 2)]
   = [Some ([], Some ScopeField, Some ''core.book'', None),
      Some ([], Some ScopeField, Some ''core.book'', None),
      Some (''rand'', Some ScopeField, Some ''core.book'', None),
      Some (''random'', Some ScopeField, Some ''core.book'', None),
      Some (''id'', Some ScopeField, Some ''core.book'', None),
      Some ([], Some ScopeComparison, Some ''core.book'', Some ''id''),
      Some (''>'', Some ScopeComparison, Some ''core.book'', Some ''id''),
      Some ([], Some ScopeValue, Some ''core.book'', Some ''id''),
      Some (''1'', Some ScopeValue, Some ''core.book'', Some ''id''),
      Some ([], Some ScopeLogical, None, None),
      Some (''hmm'', Some ScopeLogical, None, None),
      Some ([], Some ScopeField, Some ''core.book'', None),
      Some ([], Some ScopeField, Some ''auth.user'', None),
      Some (''i'', Some ScopeField, Some ''auth.user'', None),
      Some ([], Some ScopeLogical, None, None),
      Some (''a'', Some ScopeLogical, None, None),
      Some ([], Some ScopeField, Some ''core.book'', None),
      Some (''i'', Some ScopeField, Some ''core.book'', None)]"
  by code_simp

lemma test_getContext_nulls:
  "map (\<lambda>(text, pos). contextAt text pos)
     [(''random_word '', 12), (''id > 1 hmm '', 11), (''(id = 1)'', 8), (''a = \"'', 5)]
   = [Some ([], None, None, None), Some ([], None, None, None), Some ('')'', None, None, None),
      Some ([CHR 0x22], None, None, None)]"
  by code_simp

lemma test_no_circular_deps:
  "''book'' \<notin> set (the (offered (typing (Some ''core.book'') testModels ''author.'')))
   \<and> ''book'' \<in> set (the (offered (typing (Some ''auth.group'') testModels ''user.'')))
   \<and> ''author'' \<notin> set (the (offered (typing (Some ''auth.group'') testModels ''user.book.'')))"
  by code_simp

text \<open>
  Two texts on which \<open>getContext\<close> throws: a dot with no token before it, where the
  start of the last token is read from \<open>null\<close>, and a quote typed as the value of a
  relation, where the type of the field \<open>null\<close> is read.
\<close>

lemma getContext_lone_dot_raises:
  "getContext (typing (Some ''core.book'') testModels ''.'') ''.'' 1 = Inl TypeError"
  by code_simp

lemma getContext_quote_after_relation_raises:
  "getContext (typing (Some ''core.book'') testModels ''author = \"'') ''author = \"'' 10
   = Inl TypeError"
  by code_simp

section \<open>Properties of name resolution\<close>

lemma fieldAt_model:
  "models this (propertyKey mdl) = Some m \<Longrightarrow>
   fieldAt this mdl key =
     (case map_of m (propertyKey key) of
        Some d \<Rightarrow> Inr (Definition d)
      | None \<Rightarrow> Inr (Plain (if inherits this (propertyKey key) then Truthy else Absent)))"
  by (simp add: fieldAt_def modelAt_def propertyAt_def)

lemma fieldAt_missing:
  "models this (propertyKey mdl) = None \<Longrightarrow> \<not> inherits this (propertyKey mdl) \<Longrightarrow>
   fieldAt this mdl key = Inl TypeError"
  by (simp add: fieldAt_def modelAt_def inherits_def split: option.splits)

lemma resolveParts_append:
  "resolveParts this ps r = Inr r1 \<Longrightarrow> model r1 \<noteq> None \<Longrightarrow>
   resolveParts this (ps @ qs) r = resolveParts this qs r1"
proof (induction ps arbitrary: r)
  case Nil
  then show ?case by simp
next
  case (Cons p ps)
  then show ?case
    by (auto split: sum.splits if_splits)
qed

lemma resolveParts_stack_grows:
  "resolveParts this ps r = Inr r1 \<Longrightarrow> \<exists>ys. modelStack r1 = modelStack r @ ys"
proof (induction ps arbitrary: r)
  case Nil
  then show ?case by simp
next
  case (Cons p ps)
  then show ?case
    by (fastforce split: sum.splits if_splits)
qed

lemma resolveParts_last:
  "resolveParts this ps r = Inr r1 \<Longrightarrow> modelStack r \<noteq> [] \<Longrightarrow> last (modelStack r) = model r \<Longrightarrow>
   model r1 \<noteq> None \<Longrightarrow> modelStack r1 \<noteq> [] \<and> last (modelStack r1) = model r1"
proof (induction ps arbitrary: r)
  case Nil
  then show ?case by simp
next
  case (Cons p ps)
  then show ?case
    by (auto split: sum.splits if_splits)
qed

lemma resolveParts_field:
  "resolveParts this ps r = Inr r1 \<Longrightarrow>
   (\<forall>f. field r = Some f \<longrightarrow>
      (\<exists>v. fieldAt this (model r) (Some f) = Inr v \<and> truthyValue v
           \<and> typeOf v \<noteq> Some ''relation'')) \<Longrightarrow>
   field r1 = Some f \<Longrightarrow>
   \<exists>v. fieldAt this (model r1) (Some f) = Inr v \<and> truthyValue v
       \<and> typeOf v \<noteq> Some ''relation''"
proof (induction ps arbitrary: r)
  case Nil
  then show ?case by simp
next
  case (Cons p ps)
  then show ?case
    by (auto split: sum.splits if_splits)
qed

lemma resolveParts_total:
  assumes closed: "\<forall>k m f d. models this k = Some m \<and> map_of m f = Some d \<and> type d = ''relation''
                     \<longrightarrow> models this (propertyKey (relation d)) \<noteq> None"
  shows "models this (propertyKey (model r)) \<noteq> None \<Longrightarrow> \<exists>r1. resolveParts this ps r = Inr r1"
proof (induction ps arbitrary: r)
  case Nil
  then show ?case by simp
next
  case (Cons p ps)
  from Cons.prems obtain m where m: "models this (propertyKey (model r)) = Some m" by auto
  note at = fieldAt_model [OF m, of "Some p"]
  show ?case
  proof (cases "map_of m p")
    case None
    have "\<exists>r1. resolveParts this ps (r\<lparr>field := Some p\<rparr>) = Inr r1"
      using Cons.prems by (intro Cons.IH) simp
    with at None show ?thesis
      by (simp add: propertyKey_def truthyValue_def typeOf_def)
  next
    case (Some d)
    show ?thesis
    proof (cases "type d = ''relation''")
      case True
      with closed m Some have "models this (propertyKey (relation d)) \<noteq> None" by blast
      then have "\<exists>r1. resolveParts this ps
          (r\<lparr>modelStack := modelStack r @ [relation d], model := relation d, field := None\<rparr>) = Inr r1"
        by (intro Cons.IH) simp
      with at Some True show ?thesis
        by (simp add: propertyKey_def truthyValue_def typeOf_def relationOf_def)
    next
      case False
      have "\<exists>r1. resolveParts this ps (r\<lparr>field := Some p\<rparr>) = Inr r1"
        using Cons.prems by (intro Cons.IH) simp
      with at Some False show ?thesis
        by (simp add: propertyKey_def truthyValue_def typeOf_def)
    qed
  qed
qed

lemma fieldAt_frame:
  assumes m: "models a = models b" and o: "objectPrototype a = objectPrototype b"
  shows "fieldAt a = fieldAt b"
  unfolding fieldAt_def modelAt_def propertyAt_def inherits_def m o ..

lemma modelAt_frame:
  assumes m: "models a = models b" and o: "objectPrototype a = objectPrototype b"
  shows "modelAt a = modelAt b"
  unfolding modelAt_def m o ..

lemma resolveParts_frame:
  assumes m: "models a = models b" and o: "objectPrototype a = objectPrototype b"
  shows "resolveParts a = resolveParts b"
proof (intro ext)
  fix ps r
  show "resolveParts a ps r = resolveParts b ps r"
    by (induction ps arbitrary: r) (simp_all add: fieldAt_frame [OF m o] split: sum.splits)
qed

lemma resolveName_frame:
  assumes c: "currentModel a = currentModel b" and m: "models a = models b"
    and o: "objectPrototype a = objectPrototype b"
  shows "resolveName a name = resolveName b name"
  unfolding resolveName_def c resolveParts_frame [OF m o] ..




text \<open>
  Claim C10, as amended. When the current model is truthy (neither null nor the empty
  string), \<open>resolveName\<close> either returns a result whose stack is not empty and starts
  with the current model, and whose last element is the returned model whenever that
  model is not null, or it throws, which happens only for a schema that is not closed.
\<close>

theorem resolveName_stack_tracks_model:
  assumes "truthy (currentModel this)"
  shows "case resolveName this name of
           Inl e \<Rightarrow> \<not> closedSchema this
         | Inr r \<Rightarrow>
             modelStack r \<noteq> [] \<and> hd (modelStack r) = currentModel this
             \<and> (model r \<noteq> None \<longrightarrow> last (modelStack r) = model r)"
proof (cases "resolveName this name")
  case (Inl e)
  have "\<not> closedSchema this"
  proof
    assume c: "closedSchema this"
    then have "\<exists>r1. resolveParts this (split name CHR ''.'')
                  (loopStart (currentModel this)) = Inr r1"
      by (intro resolveParts_total) (auto simp: closedSchema_def loopStart_def)
    with assms Inl show False by (simp add: resolveName_def)
  qed
  with Inl show ?thesis by simp
next
  case (Inr r)
  with assms have run: "resolveParts this (split name CHR ''.'')
                          (loopStart (currentModel this)) = Inr r"
    by (simp add: resolveName_def)
  from resolveParts_stack_grows [OF run]
  have front: "modelStack r \<noteq> [] \<and> hd (modelStack r) = currentModel this"
    by (auto simp: loopStart_def)
  have "model r \<noteq> None \<longrightarrow> last (modelStack r) = model r"
    using resolveParts_last [OF run] by (simp add: loopStart_def)
  with front Inr show ?thesis by simp
qed

theorem resolveName_stack_tracks_model_witness:
  "truthy (currentModel (typing (Some ''core.book'') testModels []))
   \<and> (case resolveName (typing (Some ''core.book'') testModels []) ''author.groups.user.email'' of
         Inl e \<Rightarrow> \<not> closedSchema (typing (Some ''core.book'') testModels [])
       | Inr r \<Rightarrow>
           modelStack r \<noteq> [] \<and> hd (modelStack r) = Some ''core.book''
           \<and> (model r \<noteq> None \<longrightarrow> last (modelStack r) = model r))
   \<and> resolveName (typing (Some ''core.book'') testModels []) ''author.groups.user.email''
      = Inr \<lparr>modelStack = [Some ''core.book'', Some ''auth.user'', Some ''auth.group'',
                            Some ''auth.user''],
             model = Some ''auth.user'', field = Some ''email''\<rparr>"
proof -
  let ?e = "typing (Some ''core.book'') testModels []"
  have h: "truthy (currentModel ?e)" by code_simp
  have cm: "currentModel ?e = Some ''core.book''" by code_simp
  have v: "resolveName ?e ''author.groups.user.email''
      = Inr \<lparr>modelStack = [Some ''core.book'', Some ''auth.user'', Some ''auth.group'',
                            Some ''auth.user''],
             model = Some ''auth.user'', field = Some ''email''\<rparr>"
    by code_simp
  from resolveName_stack_tracks_model [OF h, of "''author.groups.user.email''"] cm h v
  show ?thesis by simp
qed

text \<open>
  Claim C10 as stated speaks of every non-null current model. The empty string is not
  null, and the guard \<open>if (model)\<close> of \<open>resolveName\<close> treats it as absent: the stack
  returned is empty.
\<close>

theorem resolveName_empty_current_model:
  "currentModel (typing (Some []) unnamedModels []) \<noteq> None
   \<and> resolveName (typing (Some []) unnamedModels []) ''id''
       = Inr \<lparr>modelStack = [], model = Some [], field = None\<rparr>"
  by code_simp

text \<open>
  Claim C5, as amended. When a name goes through a relation \<open>p\<close> whose target is
  neither a key of \<open>models\<close> nor the name of a member of \<open>Object.prototype\<close>, and has at
  least one more part \<open>q\<close> after it, \<open>resolveName\<close> throws a \<open>TypeError\<close>: the next turn
  of the loop reads a property of \<open>this.models[model]\<close>, which is \<open>undefined\<close>.
\<close>

theorem resolveName_dangling_relation:
  assumes "truthy (currentModel this)"
    and "split name CHR ''.'' = ps @ p # q # qs"
    and "resolveParts this ps (loopStart (currentModel this)) = Inr r"
    and "model r = Some m" and "models this m = Some d"
    and "map_of d p = Some f" and "type f = ''relation''"
    and "models this (propertyKey (relation f)) = None"
    and "\<not> inherits this (propertyKey (relation f))"
  shows "resolveName this name = Inl TypeError"
proof -
  let ?r1 = "r\<lparr>modelStack := modelStack r @ [relation f], model := relation f, field := None\<rparr>"
  have "resolveParts this (ps @ p # q # qs) (loopStart (currentModel this))
        = resolveParts this (p # q # qs) r"
    using assms(3,4) by (intro resolveParts_append) auto
  also have "fieldAt this (model r) (Some p) = Inr (Definition f)"
    using assms(4-6) by (simp add: fieldAt_model propertyKey_def)
  then have "resolveParts this (p # q # qs) r = resolveParts this (q # qs) ?r1"
    using assms(7) by (simp add: truthyValue_def typeOf_def relationOf_def)
  also have "fieldAt this (model ?r1) (Some q) = Inl TypeError"
    using assms(8,9) by (simp add: fieldAt_missing)
  then have "resolveParts this (q # qs) ?r1 = Inl TypeError"
    by simp
  finally show ?thesis
    using assms(1,2) by (simp add: resolveName_def)
qed

theorem resolveName_dangling_relation_witness:
  "truthy (currentModel (typing (Some ''core.book'') publisherModels []))
   \<and> split ''publisher.name'' CHR ''.'' = [] @ ''publisher'' # ''name'' # []
   \<and> resolveParts (typing (Some ''core.book'') publisherModels []) []
        (loopStart (currentModel (typing (Some ''core.book'') publisherModels [])))
      = Inr (loopStart (Some ''core.book''))
   \<and> model (loopStart (Some ''core.book'')) = Some ''core.book''
   \<and> map_of (the (map_of publisherModels ''core.book'')) ''publisher''
      = Some (plainField ''relation'' (Some ''core.publisher''))
   \<and> models (typing (Some ''core.book'') publisherModels []) ''core.publisher'' = None
   \<and> \<not> inherits (typing (Some ''core.book'') publisherModels []) ''core.publisher''
   \<and> resolveName (typing (Some ''core.book'') publisherModels []) ''publisher.name''
      = Inl TypeError"
proof -
  let ?e = "typing (Some ''core.book'') publisherModels []"
  let ?f = "plainField ''relation'' (Some ''core.publisher'')"
  have h1: "truthy (currentModel ?e)" by code_simp
  have h2: "split ''publisher.name'' CHR ''.'' = [] @ ''publisher'' # ''name'' # []"
    by code_simp
  have h3: "resolveParts ?e [] (loopStart (currentModel ?e))
            = Inr (loopStart (Some ''core.book''))" by code_simp
  have h4: "model (loopStart (Some ''core.book'')) = Some ''core.book''" by code_simp
  have h5: "models ?e ''core.book'' = Some (the (map_of publisherModels ''core.book''))"
    by code_simp
  have h6: "map_of (the (map_of publisherModels ''core.book'')) ''publisher'' = Some ?f"
    by code_simp
  have h7: "type ?f = ''relation''" by code_simp
  have h8: "models ?e (propertyKey (relation ?f)) = None" by code_simp
  have h9: "models ?e ''core.publisher'' = None" by code_simp
  have h10: "\<not> inherits ?e (propertyKey (relation ?f))" by code_simp
  have h11: "\<not> inherits ?e ''core.publisher''" by code_simp
  from resolveName_dangling_relation [OF h1 h2 h3 h4 h5 h6 h7 h8 h10] h1 h2 h3 h4 h6 h9 h11
  show ?thesis by simp
qed

text \<open>
  Claim C5 as stated expects the unknown result there. In a schema where the relation
  \<open>publisher\<close> points to a model that is missing, the name \<open>publisher.name\<close> makes
  \<open>resolveName\<close> throw. Where the missing target is called \<open>constructor\<close>,
  \<open>this.models[model]\<close> is the member that the schema inherits and nothing is thrown:
  the part \<open>name\<close> is found in that member and comes back as a field.
\<close>

theorem resolveName_dangling_relation_raises:
  "map_of publisherModels ''core.book'' \<noteq> None
   \<and> map_of publisherModels ''core.publisher'' = None
   \<and> resolveName (typing (Some ''core.book'') publisherModels []) ''publisher.name''
       = Inl TypeError
   \<and> map_of constructorModels ''constructor'' = None
   \<and> resolveName (typing (Some ''core.book'') constructorModels []) ''publisher.name''
       = Inr \<lparr>modelStack = [Some ''core.book'', Some ''constructor''],
              model = Some ''constructor'', field = Some ''name''\<rparr>"
  by code_simp

section \<open>Properties of context resolution\<close>

lemma cursorState_frame:
  assumes l: "lexer a = lexer b"
  shows "cursorState a text pos = cursorState b text pos"
  unfolding cursorState_def l ..

lemma getContext_frame:
  assumes c: "currentModel a = currentModel b" and m: "models a = models b"
    and o: "objectPrototype a = objectPrototype b" and l: "lexer a = lexer b"
  shows "getContext a text pos = getContext b text pos"
  unfolding getContext_def fieldScope_def valueScope_def comparisonScope_def nullContext_def
    resolveName_frame [OF c m o] cursorState_frame [OF l] fieldAt_frame [OF m o] c ..

lemma contextField_frame:
  assumes m: "models a = models b" and o: "objectPrototype a = objectPrototype b"
  shows "contextField a c = contextField b c"
  unfolding contextField_def fieldAt_frame [OF m o] ..

lemma resolveName_field:
  assumes "resolveName this name = Inr r" and "field r = Some f"
  shows "\<exists>v. fieldAt this (model r) (Some f) = Inr v \<and> truthyValue v
             \<and> typeOf v \<noteq> Some ''relation''"
proof (cases "truthy (currentModel this)")
  case True
  with assms(1) have "resolveParts this (split name CHR ''.'')
                        (loopStart (currentModel this)) = Inr r"
    by (simp add: resolveName_def)
  from resolveParts_field [OF this _ assms(2)] show ?thesis
    by (simp add: loopStart_def)
next
  case False
  with assms show ?thesis by (auto simp: resolveName_def)
qed

lemma fieldScope_result:
  "fieldScope this text pos cur = Inr c \<Longrightarrow>
   field c = None \<and> (scope c = None \<or> scope c = Some ScopeField)"
  by (auto simp: fieldScope_def nullContext_def Let_def split: sum.splits if_splits option.splits)

lemma valueScope_result:
  "valueScope this cur nt = Inr c \<Longrightarrow> scope c = None \<or> scope c = Some ScopeValue"
  by (auto simp: valueScope_def nullContext_def Let_def
           split: sum.splits if_splits option.splits list.splits)

lemma comparisonScope_result:
  "comparisonScope this cur lt = Inr c \<Longrightarrow> scope c = None \<or> scope c = Some ScopeComparison"
  by (auto simp: comparisonScope_def nullContext_def split: sum.splits if_splits)

lemma getContext_cases:
  assumes "getContext this text pos = Inr c"
  shows "c = nullContext this (cursorState this text pos)
         \<or> c = (nullContext this (cursorState this text pos))\<lparr>scope := Some ScopeLogical\<rparr>
         \<or> (entersFieldScope (cursorState this text pos)
              \<and> fieldScope this text pos (cursorState this text pos) = Inr c)
         \<or> (\<exists>nt. valueScope this (cursorState this text pos) nt = Inr c)
         \<or> (\<exists>lt. comparisonScope this (cursorState this text pos) lt = Inr c)"
  using assms
  by (auto simp: getContext_def Let_def split: if_splits option.splits)

lemma getContext_field:
  assumes "getContext this text pos = Inr c" and "scope c = Some ScopeField"
  shows "fieldScope this text pos (cursorState this text pos) = Inr c \<and> field c = None"
  using getContext_cases [OF assms(1)] assms(2)
    fieldScope_result [of this "text" pos "cursorState this text pos" c]
    valueScope_result [of this "cursorState this text pos" _ c]
    comparisonScope_result [of this "cursorState this text pos" _ c]
  by (auto simp: nullContext_def)

lemma getContext_comparison:
  assumes "getContext this text pos = Inr c" and "scope c = Some ScopeComparison"
  shows "\<exists>lt. comparisonScope this (cursorState this text pos) lt = Inr c"
  using getContext_cases [OF assms(1)] assms(2)
    fieldScope_result [of this "text" pos "cursorState this text pos" c]
    valueScope_result [of this "cursorState this text pos" _ c]
  by (auto simp: nullContext_def)

lemma getContext_value:
  assumes "getContext this text pos = Inr c" and "scope c = Some ScopeValue"
  shows "\<exists>nt. valueScope this (cursorState this text pos) nt = Inr c"
  using getContext_cases [OF assms(1)] assms(2)
    fieldScope_result [of this "text" pos "cursorState this text pos" c]
    comparisonScope_result [of this "cursorState this text pos" _ c]
  by (auto simp: nullContext_def)

lemma comparisonScope_field:
  assumes "comparisonScope this cur lt = Inr c" and "scope c = Some ScopeComparison"
  shows "\<exists>fd. contextField this c = Inr fd
           \<and> (truthy (field c) \<longrightarrow> truthyValue fd \<and> typeOf fd \<noteq> Some ''relation'')
           \<and> (\<not> truthy (field c) \<longrightarrow> \<not> truthyValue fd)"
proof -
  from assms obtain r where r: "resolveName this (tokValue lt) = Inr r"
    and c: "model c = model r" "field c = field r"
    by (auto simp: comparisonScope_def nullContext_def split: sum.splits if_splits)
  show ?thesis
  proof (cases "truthy (field c)")
    case False
    then show ?thesis
      by (simp add: contextField_def truthyValue_def split: option.splits)
  next
    case True
    then obtain f where f: "field r = Some f" using c by (auto simp: truthy_def split: option.splits)
    from resolveName_field [OF r f] c f True show ?thesis
      by (auto simp: contextField_def)
  qed
qed

section \<open>Properties of the suggestions\<close>

lemma generateSuggestions_unfold:
  assumes en: "completionEnabled this" and cm: "truthy (currentModel this)"
    and sel: "selectionStart this = selectionEnd this"
    and g: "getContext this (textareaValue this) (selectionStart this) = Inr c"
    and f: "contextField this c = Inr fd"
    and s: "scopeSuggestions
              (this\<lparr>highlightCaseSensitive := True, djangoql.prefix := ctx.prefix c\<rparr>) c fd
            = Inr (this3, anchored)"
  shows "generateSuggestions this
         = Inr (this3\<lparr>suggestions := filter (searchFilter this3 anchored) (suggestions this3),
                      selected := (if length (filter (searchFilter this3 anchored)
                                                (suggestions this3)) = 1
                                   then Some 0 else None)\<rparr>)"
proof -
  let ?this1 = "this\<lparr>highlightCaseSensitive := True\<rparr>"
  have g1: "getContext ?this1 (textareaValue ?this1) (selectionStart ?this1) = Inr c"
    using g getContext_frame [of ?this1 this] by simp
  have f1: "contextField (?this1\<lparr>djangoql.prefix := ctx.prefix c\<rparr>) c = Inr fd"
    using f contextField_frame [of "?this1\<lparr>djangoql.prefix := ctx.prefix c\<rparr>" this] by simp
  show ?thesis
    using en cm sel g1 f1 s by (simp add: generateSuggestions_def Let_def)
qed

lemma fieldSuggestions_texts:
  "map itemText (fieldSuggestions m stack)
   = filter (\<lambda>f. case map_of m f of None \<Rightarrow> True | Some d \<Rightarrow> \<not> suppressed stack d) (map fst m)"
  by (simp add: fieldSuggestions_def suggestion_def comp_def)

lemma map_itemText_filter:
  "map itemText (filter (\<lambda>s. P (itemText s)) xs) = filter P (map itemText xs)"
  by (induction xs) auto

lemma generateSuggestions_field:
  assumes en: "completionEnabled this" and cm: "truthy (currentModel this)"
    and sel: "selectionStart this = selectionEnd this"
    and g: "getContext this (textareaValue this) (selectionStart this) = Inr c"
    and sc: "scope c = Some ScopeField"
    and m: "models this (propertyKey (model c)) = Some m"
  shows "offered this
         = Some (filter (\<lambda>f. 0 \<le> indexOf f (ctx.prefix c))
                   (filter (\<lambda>f. case map_of m f of None \<Rightarrow> True
                                 | Some d \<Rightarrow> \<not> suppressed (modelStack c) d) (map fst m)))"
proof -
  let ?this2 = "this\<lparr>highlightCaseSensitive := True, djangoql.prefix := ctx.prefix c\<rparr>"
  from getContext_field [OF g sc] have "field c = None" by simp
  then have f: "contextField this c = Inr (Plain Absent)"
    by (simp add: contextField_def truthy_def)
  have s: "scopeSuggestions ?this2 c (Plain Absent)
           = Inr (?this2\<lparr>suggestions := fieldSuggestions m (modelStack c)\<rparr>, False)"
    using sc m by (simp add: scopeSuggestions_def modelAt_def)
  have flt: "searchFilter (?this2\<lparr>suggestions := fieldSuggestions m (modelStack c)\<rparr>) False
             = (\<lambda>s. 0 \<le> indexOf (itemText s) (ctx.prefix c))"
    by (rule ext) (simp add: searchFilter_def)
  have "map itemText (filter (\<lambda>s. 0 \<le> indexOf (itemText s) (ctx.prefix c))
                       (fieldSuggestions m (modelStack c)))
        = filter (\<lambda>f. 0 \<le> indexOf f (ctx.prefix c))
            (map itemText (fieldSuggestions m (modelStack c)))"
    by (rule map_itemText_filter)
  then show ?thesis
    unfolding offered_def generateSuggestions_unfold [OF en cm sel g f s] flt
    by (simp add: fieldSuggestions_texts)
qed

lemma generateSuggestions_comparison:
  assumes en: "completionEnabled this" and cm: "truthy (currentModel this)"
    and sel: "selectionStart this = selectionEnd this"
    and g: "getContext this (textareaValue this) (selectionStart this) = Inr c"
    and sc: "scope c = Some ScopeComparison"
  shows "\<exists>this' fd. generateSuggestions this = Inr this' \<and> contextField this c = Inr fd
           \<and> suggestions this'
               = filter (\<lambda>s. take (length (ctx.prefix c)) (itemText s) = ctx.prefix c)
                   (comparisonSuggestions fd)
           \<and> (truthy (field c) \<longrightarrow> truthyValue fd \<and> typeOf fd \<noteq> Some ''relation'')
           \<and> (\<not> truthy (field c) \<longrightarrow> \<not> truthyValue fd)"
proof -
  let ?this2 = "this\<lparr>highlightCaseSensitive := True, djangoql.prefix := ctx.prefix c\<rparr>"
  from getContext_comparison [OF g sc] obtain lt
    where "comparisonScope this (cursorState this (textareaValue this) (selectionStart this)) lt
           = Inr c" ..
  from comparisonScope_field [OF this sc] obtain fd where f: "contextField this c = Inr fd"
    and fv: "truthy (field c) \<longrightarrow> truthyValue fd \<and> typeOf fd \<noteq> Some ''relation''"
      "\<not> truthy (field c) \<longrightarrow> \<not> truthyValue fd"
    by (elim exE conjE) (rule that, assumption+)
  have s: "scopeSuggestions ?this2 c fd
           = Inr (?this2\<lparr>suggestions := comparisonSuggestions fd\<rparr>, True)"
    using sc by (simp add: scopeSuggestions_def)
  have flt: "searchFilter (?this2\<lparr>suggestions := comparisonSuggestions fd\<rparr>) True
             = (\<lambda>s. take (length (ctx.prefix c)) (itemText s) = ctx.prefix c)"
    by (rule ext) (simp add: searchFilter_def lastIndexOf0_def)
  show ?thesis
    unfolding generateSuggestions_unfold [OF en cm sel g f s] flt
    using f fv by simp
qed

lemma comparisonSuggestions_texts:
  "map itemText (comparisonSuggestions fd) =
     [''='', ''!='']
     @ (if truthyValue fd \<and> typeOf fd \<noteq> Some ''bool''
        then (if typeOf fd \<in> set [Some ''date'', Some ''datetime''] then [''~'', ''!~'']
              else if typeOf fd = Some ''str''
              then [''~'', ''!~'', ''startswith'', ''not startswith'', ''endswith'',
                    ''not endswith'']
              else [])
             @ (if typeOf fd \<noteq> Some ''str'' then [''>'', ''>='', ''<'', ''<=''] else [])
             @ [''in'', ''not in'']
        else [])"
  by (simp add: comparisonSuggestions_def suggestion_def Let_def)

text \<open>
  Claim C1, as amended. In the \<open>field\<close> scope, a field \<open>f\<close> of the model of the context
  whose name contains the typed prefix is missing from the suggestions exactly when it
  is a relation whose target occurs in \<open>modelStack\<close> and is not the last element of
  \<open>modelStack\<close>: the test looks at the whole stack and spares only its last element.
\<close>

theorem field_suppressed_iff:
  assumes en: "completionEnabled this" and cm: "truthy (currentModel this)"
    and sel: "selectionStart this = selectionEnd this"
    and g: "getContext this (textareaValue this) (selectionStart this) = Inr c"
    and sc: "scope c = Some ScopeField"
    and m: "models this (propertyKey (model c)) = Some m"
    and d: "map_of m f = Some d"
    and p: "0 \<le> indexOf f (ctx.prefix c)"
  shows "\<exists>texts. offered this = Some texts
           \<and> (f \<notin> set texts \<longleftrightarrow>
                type d = ''relation'' \<and> relation d \<in> set (modelStack c)
                \<and> lastElement (modelStack c) \<noteq> Some (relation d))"
proof -
  from d have "f \<in> set (map fst m)"
    by (metis domI dom_map_of_conv_image_fst set_map)
  with d p show ?thesis
    unfolding generateSuggestions_field [OF en cm sel g sc m]
    by (auto simp: suppressed_def)
qed

theorem field_suppressed_iff_witness:
  "completionEnabled (typing (Some ''core.book'') testModels ''author.'')
   \<and> truthy (currentModel (typing (Some ''core.book'') testModels ''author.''))
   \<and> getContext (typing (Some ''core.book'') testModels ''author.'') (textareaValue (typing (Some ''core.book'') testModels ''author.''))
        (selectionStart (typing (Some ''core.book'') testModels ''author.''))
       = Inr \<lparr>modelStack = [Some ''core.book'', Some ''auth.user''], model = Some ''auth.user'',
              field = None, ctx.prefix = [], scope = Some ScopeField,
              currentFullToken = Some \<lparr>tokName = ''DOT'', tokValue = ''.'', tokStart = 6,
                                        tokEnd = 7\<rparr>\<rparr>
   \<and> map_of (the (map_of testModels ''auth.user'')) ''book''
       = Some (plainField ''relation'' (Some ''core.book''))
   \<and> 0 \<le> indexOf ''book'' []
   \<and> (\<exists>texts. offered (typing (Some ''core.book'') testModels ''author.'') = Some texts
         \<and> ''book'' \<notin> set texts)"
proof -
  let ?e = "typing (Some ''core.book'') testModels ''author.''"
  let ?c = "\<lparr>modelStack = [Some ''core.book'', Some ''auth.user''], model = Some ''auth.user'',
              field = None, ctx.prefix = [], scope = Some ScopeField,
              currentFullToken = Some \<lparr>tokName = ''DOT'', tokValue = ''.'', tokStart = 6,
                                        tokEnd = 7\<rparr>\<rparr>"
  let ?d = "plainField ''relation'' (Some ''core.book'')"
  have en: "completionEnabled ?e" by code_simp
  have cm: "truthy (currentModel ?e)" by code_simp
  have sel: "selectionStart ?e = selectionEnd ?e" by code_simp
  have g: "getContext ?e (textareaValue ?e) (selectionStart ?e) = Inr ?c" by code_simp
  have sc: "scope ?c = Some ScopeField" by simp
  have m: "models ?e (propertyKey (model ?c)) = Some (the (map_of testModels ''auth.user''))"
    by code_simp
  have d: "map_of (the (map_of testModels ''auth.user'')) ''book'' = Some ?d" by code_simp
  have p: "0 \<le> indexOf ''book'' (ctx.prefix ?c)" by code_simp
  have s: "type ?d = ''relation'' \<and> relation ?d \<in> set (modelStack ?c)
           \<and> lastElement (modelStack ?c) \<noteq> Some (relation ?d)" by code_simp
  have p0: "0 \<le> indexOf ''book'' []" by code_simp
  from field_suppressed_iff [OF en cm sel g sc m d p] s
  have "\<exists>texts. offered ?e = Some texts \<and> ''book'' \<notin> set texts" by blast
  with en cm g d p0 show ?thesis by blast
qed

text \<open>
  Claim C1 as stated has a relation suppressed only when its target is the last element
  of the stack, and a target three hops back still suggested. Starting from
  \<open>auth.group\<close> and typing \<open>user.book.author.\<close>, the relation \<open>groups\<close> points to
  \<open>auth.group\<close>, three hops back in the stack and not its last element: it is not
  suggested.
\<close>

theorem relation_elsewhere_in_stack_not_offered:
  "getContext (typing (Some ''auth.group'') testModels ''user.book.author.'')
       ''user.book.author.'' 17
     = Inr \<lparr>modelStack = [Some ''auth.group'', Some ''auth.user'', Some ''core.book'',
                           Some ''auth.user''],
            model = Some ''auth.user'', field = None, ctx.prefix = [], scope = Some ScopeField,
            currentFullToken = Some \<lparr>tokName = ''DOT'', tokValue = ''.'', tokStart = 16,
                                      tokEnd = 17\<rparr>\<rparr>
   \<and> map_of (the (map_of testModels ''auth.user'')) ''groups''
       = Some (plainField ''relation'' (Some ''auth.group''))
   \<and> offered (typing (Some ''auth.group'') testModels ''user.book.author.'')
       = Some [''id'', ''password'', ''last_login'', ''is_superuser'', ''username'',
               ''first_name'', ''last_name'', ''email'', ''is_staff'', ''is_active'',
               ''date_joined'']"
  by code_simp

text \<open>
  Claim C2, as amended. In the \<open>field\<close> scope the suggestions never include a relation
  whose target is the element \<open>x\<close> just before the last element \<open>y\<close> of \<open>modelStack\<close>,
  provided that \<open>x\<close> and \<open>y\<close> differ. With the starting model \<open>auth.group\<close>, after
  \<open>user.book.\<close> the relation \<open>author\<close> is not offered.
\<close>

theorem no_back_reference_to_previous_model:
  assumes en: "completionEnabled this" and cm: "truthy (currentModel this)"
    and sel: "selectionStart this = selectionEnd this"
    and g: "getContext this (textareaValue this) (selectionStart this) = Inr c"
    and sc: "scope c = Some ScopeField"
    and m: "models this (propertyKey (model c)) = Some m"
    and st: "modelStack c = pre @ [x, y]" and ne: "x \<noteq> y"
    and d: "map_of m f = Some d" and rel: "type d = ''relation''" and tgt: "relation d = x"
  shows "\<exists>texts. offered this = Some texts \<and> f \<notin> set texts"
proof -
  have "suppressed (modelStack c) d"
    using st ne rel tgt by (simp add: suppressed_def lastElement_def)
  with d show ?thesis
    unfolding generateSuggestions_field [OF en cm sel g sc m] by simp
qed

theorem no_back_reference_to_previous_model_witness:
  "completionEnabled (typing (Some ''auth.group'') testModels ''user.book.'')
   \<and> truthy (currentModel (typing (Some ''auth.group'') testModels ''user.book.''))
   \<and> getContext (typing (Some ''auth.group'') testModels ''user.book.'') (textareaValue (typing (Some ''auth.group'') testModels ''user.book.''))
        (selectionStart (typing (Some ''auth.group'') testModels ''user.book.''))
       = Inr \<lparr>modelStack = [Some ''auth.group''] @ [Some ''auth.user'', Some ''core.book''],
              model = Some ''core.book'', field = None, ctx.prefix = [],
              scope = Some ScopeField,
              currentFullToken = Some \<lparr>tokName = ''DOT'', tokValue = ''.'', tokStart = 9,
                                        tokEnd = 10\<rparr>\<rparr>
   \<and> Some ''auth.user'' \<noteq> Some ''core.book''
   \<and> map_of (the (map_of testModels ''core.book'')) ''author''
       = Some (plainField ''relation'' (Some ''auth.user''))
   \<and> (\<exists>texts. offered (typing (Some ''auth.group'') testModels ''user.book.'') = Some texts
         \<and> ''author'' \<notin> set texts)"
proof -
  let ?e = "typing (Some ''auth.group'') testModels ''user.book.''"
  let ?c = "\<lparr>modelStack = [Some ''auth.group''] @ [Some ''auth.user'', Some ''core.book''],
              model = Some ''core.book'', field = None, ctx.prefix = [],
              scope = Some ScopeField,
              currentFullToken = Some \<lparr>tokName = ''DOT'', tokValue = ''.'', tokStart = 9,
                                        tokEnd = 10\<rparr>\<rparr>"
  let ?d = "plainField ''relation'' (Some ''auth.user'')"
  have en: "completionEnabled ?e" by code_simp
  have cm: "truthy (currentModel ?e)" by code_simp
  have sel: "selectionStart ?e = selectionEnd ?e" by code_simp
  have g: "getContext ?e (textareaValue ?e) (selectionStart ?e) = Inr ?c" by code_simp
  have sc: "scope ?c = Some ScopeField" by simp
  have m: "models ?e (propertyKey (model ?c)) = Some (the (map_of testModels ''core.book''))"
    by code_simp
  have st: "modelStack ?c = [Some ''auth.group''] @ [Some ''auth.user'', Some ''core.book'']"
    by simp
  have ne: "Some ''auth.user'' \<noteq> Some ''core.book''" by simp
  have d: "map_of (the (map_of testModels ''core.book'')) ''author'' = Some ?d" by code_simp
  have rel: "type ?d = ''relation''" by code_simp
  have tgt: "relation ?d = Some ''auth.user''" by code_simp
  from no_back_reference_to_previous_model [OF en cm sel g sc m st ne d rel tgt]
  have "\<exists>texts. offered ?e = Some texts \<and> ''author'' \<notin> set texts" .
  with en cm g ne d show ?thesis by blast
qed

text \<open>
  Claim C2 as stated covers every schema. A model with a relation to itself is on the
  stack twice after one hop, the element before the last one equals the last one, and
  the filter spares the last element: \<open>parent\<close> is offered after \<open>parent.\<close>.
\<close>

theorem self_relation_offered_again:
  "getContext (typing (Some ''core.category'') categoryModels ''parent.'') ''parent.'' 7
     = Inr \<lparr>modelStack = [Some ''core.category'', Some ''core.category''],
            model = Some ''core.category'', field = None, ctx.prefix = [],
            scope = Some ScopeField,
            currentFullToken = Some \<lparr>tokName = ''DOT'', tokValue = ''.'', tokStart = 6,
                                      tokEnd = 7\<rparr>\<rparr>
   \<and> map_of (the (map_of categoryModels ''core.category'')) ''parent''
       = Some (plainField ''relation'' (Some ''core.category''))
   \<and> offered (typing (Some ''core.category'') categoryModels ''parent.'')
       = Some [''id'', ''name'', ''parent'']"
  by code_simp

text \<open>
  Claim C3, as amended. In the \<open>comparison\<close> scope the suggestions left by
  \<open>generateSuggestions\<close> are those of the scope whose text starts with the typed
  prefix. In particular the prefix \<open>st\<close> after a string field leaves \<open>startswith\<close>
  alone: neither \<open>not startswith\<close> nor \<open>endswith\<close> starts with \<open>st\<close>.
\<close>

theorem comparison_filter_prefix_anchored:
  assumes en: "completionEnabled this" and cm: "truthy (currentModel this)"
    and sel: "selectionStart this = selectionEnd this"
    and g: "getContext this (textareaValue this) (selectionStart this) = Inr c"
    and sc: "scope c = Some ScopeComparison"
  shows "\<exists>this' fd. generateSuggestions this = Inr this' \<and> contextField this c = Inr fd
           \<and> suggestions this'
               = filter (\<lambda>s. take (length (ctx.prefix c)) (itemText s) = ctx.prefix c)
                   (comparisonSuggestions fd)
           \<and> (ctx.prefix c = ''st'' \<and> (\<exists>f. fd = Definition f \<and> type f = ''str'')
                \<longrightarrow> map itemText (suggestions this') = [''startswith''])"
proof -
  from generateSuggestions_comparison [OF en cm sel g sc] obtain this' fd
    where r: "generateSuggestions this = Inr this'" "contextField this c = Inr fd"
      "suggestions this'
         = filter (\<lambda>s. take (length (ctx.prefix c)) (itemText s) = ctx.prefix c)
             (comparisonSuggestions fd)"
    by (elim exE conjE) (rule that, assumption+)
  have st: "map itemText (suggestions this') = [''startswith'']"
    if "ctx.prefix c = ''st''" and "\<exists>f. fd = Definition f \<and> type f = ''str''"
  proof -
    from that obtain f where f: "fd = Definition f" "type f = ''str''" by blast
    have "map itemText (filter (\<lambda>s. take (length ''st'') (itemText s) = ''st'')
                          (comparisonSuggestions fd))
          = filter (\<lambda>t. take (length ''st'') t = ''st'') (map itemText (comparisonSuggestions fd))"
      by (rule map_itemText_filter)
    also have "\<dots> = [''startswith'']"
      using f by (simp add: comparisonSuggestions_texts truthyValue_def typeOf_def)
    finally show ?thesis using r(3) that(1) by simp
  qed
  show ?thesis
  proof (intro exI conjI impI)
    show "generateSuggestions this = Inr this'" by (rule r(1))
    show "contextField this c = Inr fd" by (rule r(2))
    show "suggestions this'
          = filter (\<lambda>s. take (length (ctx.prefix c)) (itemText s) = ctx.prefix c)
              (comparisonSuggestions fd)" by (rule r(3))
    assume "ctx.prefix c = ''st'' \<and> (\<exists>f. fd = Definition f \<and> type f = ''str'')"
    then show "map itemText (suggestions this') = [''startswith'']"
      using st by blast
  qed
qed

theorem comparison_filter_prefix_anchored_witness:
  "completionEnabled (typing (Some ''core.book'') testModels ''name st'')
   \<and> truthy (currentModel (typing (Some ''core.book'') testModels ''name st''))
   \<and> getContext (typing (Some ''core.book'') testModels ''name st'')
        (textareaValue (typing (Some ''core.book'') testModels ''name st''))
        (selectionStart (typing (Some ''core.book'') testModels ''name st''))
       = Inr \<lparr>modelStack = [Some ''core.book''], model = Some ''core.book'',
              field = Some ''name'', ctx.prefix = ''st'', scope = Some ScopeComparison,
              currentFullToken = Some \<lparr>tokName = ''NAME'', tokValue = ''st'', tokStart = 5,
                                        tokEnd = 7\<rparr>\<rparr>
   \<and> (\<exists>this'. generateSuggestions (typing (Some ''core.book'') testModels ''name st'')
                  = Inr this'
         \<and> map itemText (suggestions this') = [''startswith''])"
proof -
  let ?e = "typing (Some ''core.book'') testModels ''name st''"
  let ?c = "\<lparr>modelStack = [Some ''core.book''], model = Some ''core.book'',
              field = Some ''name'', ctx.prefix = ''st'', scope = Some ScopeComparison,
              currentFullToken = Some \<lparr>tokName = ''NAME'', tokValue = ''st'', tokStart = 5,
                                        tokEnd = 7\<rparr>\<rparr>"
  have en: "completionEnabled ?e" by code_simp
  have cm: "truthy (currentModel ?e)" by code_simp
  have sel: "selectionStart ?e = selectionEnd ?e" by code_simp
  have g: "getContext ?e (textareaValue ?e) (selectionStart ?e) = Inr ?c" by code_simp
  have sc: "scope ?c = Some ScopeComparison" by simp
  have f: "contextField ?e ?c = Inr (Definition (plainField ''str'' None))" by code_simp
  have t: "type (plainField ''str'' None) = ''str''" by code_simp
  from comparison_filter_prefix_anchored [OF en cm sel g sc] obtain this' fd
    where r: "generateSuggestions ?e = Inr this'" "contextField ?e ?c = Inr fd"
      "ctx.prefix ?c = ''st'' \<and> (\<exists>f. fd = Definition f \<and> type f = ''str'')
         \<longrightarrow> map itemText (suggestions this') = [''startswith'']"
    by (elim exE conjE) (rule that, assumption+)
  from r(2) f have "fd = Definition (plainField ''str'' None)" by simp
  with r(3) t have "map itemText (suggestions this') = [''startswith'']" by simp
  with r(1) have "\<exists>this'. generateSuggestions ?e = Inr this'
         \<and> map itemText (suggestions this') = [''startswith'']" by simp
  with en cm g show ?thesis by simp
qed

text \<open>
  Claim C3 as stated has \<open>not startswith\<close> match the prefix \<open>st\<close>. After \<open>name st\<close>
  on the schema of the tests the only suggestion is \<open>startswith\<close>.
\<close>

theorem not_startswith_filtered_out:
  "getContext (typing (Some ''core.book'') testModels ''name st'') ''name st'' 7
     = Inr \<lparr>modelStack = [Some ''core.book''], model = Some ''core.book'',
            field = Some ''name'', ctx.prefix = ''st'', scope = Some ScopeComparison,
            currentFullToken = Some \<lparr>tokName = ''NAME'', tokValue = ''st'', tokStart = 5,
                                      tokEnd = 7\<rparr>\<rparr>
   \<and> map_of (the (map_of testModels ''core.book'')) ''name'' = Some (plainField ''str'' None)
   \<and> offered (typing (Some ''core.book'') testModels ''name st'') = Some [''startswith'']"
  by code_simp

text \<open>
  Claim C9, as amended. In the \<open>comparison\<close> scope the suggestions of
  \<open>generateSuggestions\<close> are those that \<open>comparisonSuggestions\<close> builds for what the
  field of the context names in its model, filtered by the typed prefix, so that with
  an empty prefix all of them are left. Before the filter they always contain \<open>=\<close> and
  \<open>!=\<close>. When the context has no field, as after a name that ends at a relation, they
  are \<open>=\<close> and \<open>!=\<close> alone. When the context has a field \<open>f\<close> that its model defines,
  with definition \<open>d\<close>, that field is no relation, and the suggestions contain \<open>~\<close>,
  \<open>!~\<close>, \<open>startswith\<close>, \<open>not startswith\<close>, \<open>endswith\<close>, \<open>not endswith\<close> and none of
  the ordering operators if it is a string; the ordering operators if it is neither
  boolean nor a string; \<open>in\<close> and \<open>not in\<close> if it is not boolean.
\<close>

theorem comparison_scope_operators:
  assumes en: "completionEnabled this" and cm: "truthy (currentModel this)"
    and sel: "selectionStart this = selectionEnd this"
    and g: "getContext this (textareaValue this) (selectionStart this) = Inr c"
    and sc: "scope c = Some ScopeComparison"
  shows "\<exists>this' fd. generateSuggestions this = Inr this' \<and> contextField this c = Inr fd
           \<and> suggestions this'
               = filter (\<lambda>s. take (length (ctx.prefix c)) (itemText s) = ctx.prefix c)
                   (comparisonSuggestions fd)
           \<and> (ctx.prefix c = [] \<longrightarrow> suggestions this' = comparisonSuggestions fd)
           \<and> {''='', ''!=''} \<subseteq> set (map itemText (comparisonSuggestions fd))
           \<and> (\<not> truthy (field c)
                \<longrightarrow> map itemText (comparisonSuggestions fd) = [''='', ''!=''])
           \<and> (\<forall>m f d. field c = Some f \<and> f \<noteq> []
                  \<and> models this (propertyKey (model c)) = Some m \<and> map_of m f = Some d
                \<longrightarrow> fd = Definition d \<and> type d \<noteq> ''relation''
                  \<and> (type d = ''str'' \<longrightarrow>
                       {''~'', ''!~'', ''startswith'', ''not startswith'', ''endswith'',
                        ''not endswith''}
                         \<subseteq> set (map itemText (comparisonSuggestions fd))
                       \<and> set (map itemText (comparisonSuggestions fd))
                           \<inter> {''>'', ''>='', ''<'', ''<=''} = {})
                  \<and> (type d \<noteq> ''bool'' \<and> type d \<noteq> ''str'' \<longrightarrow>
                       {''>'', ''>='', ''<'', ''<=''}
                         \<subseteq> set (map itemText (comparisonSuggestions fd)))
                  \<and> (type d \<noteq> ''bool'' \<longrightarrow>
                       {''in'', ''not in''}
                         \<subseteq> set (map itemText (comparisonSuggestions fd))))"
proof -
  from generateSuggestions_comparison [OF en cm sel g sc] obtain this' fd
    where r: "generateSuggestions this = Inr this'" "contextField this c = Inr fd"
      "suggestions this'
         = filter (\<lambda>s. take (length (ctx.prefix c)) (itemText s) = ctx.prefix c)
             (comparisonSuggestions fd)"
      and fv: "truthy (field c) \<longrightarrow> truthyValue fd \<and> typeOf fd \<noteq> Some ''relation''"
        "\<not> truthy (field c) \<longrightarrow> \<not> truthyValue fd"
    by (elim exE conjE) (rule that, assumption+)
  have all: "ctx.prefix c = [] \<longrightarrow> suggestions this' = comparisonSuggestions fd"
    using r(3) by simp
  have eq: "{''='', ''!=''} \<subseteq> set (map itemText (comparisonSuggestions fd))"
    unfolding comparisonSuggestions_texts by simp
  have none: "\<not> truthy (field c)
                \<longrightarrow> map itemText (comparisonSuggestions fd) = [''='', ''!='']"
    using fv(2) unfolding comparisonSuggestions_texts by simp
  have own: "fd = Definition d \<and> type d \<noteq> ''relation''
      \<and> (type d = ''str'' \<longrightarrow>
           {''~'', ''!~'', ''startswith'', ''not startswith'', ''endswith'', ''not endswith''}
             \<subseteq> set (map itemText (comparisonSuggestions fd))
           \<and> set (map itemText (comparisonSuggestions fd)) \<inter> {''>'', ''>='', ''<'', ''<=''} = {})
      \<and> (type d \<noteq> ''bool'' \<and> type d \<noteq> ''str'' \<longrightarrow>
           {''>'', ''>='', ''<'', ''<=''} \<subseteq> set (map itemText (comparisonSuggestions fd)))
      \<and> (type d \<noteq> ''bool'' \<longrightarrow>
           {''in'', ''not in''} \<subseteq> set (map itemText (comparisonSuggestions fd)))"
    if h: "field c = Some f \<and> f \<noteq> [] \<and> models this (propertyKey (model c)) = Some m
           \<and> map_of m f = Some d" for m f d
  proof -
    from h have t: "truthy (field c)" by (simp add: truthy_def)
    from h t have "contextField this c = Inr (Definition d)"
      by (simp add: contextField_def fieldAt_model propertyKey_def)
    with r(2) have fd: "fd = Definition d" by simp
    from fv(1) t fd have nr: "type d \<noteq> ''relation''" by (simp add: typeOf_def)
    have tv: "truthyValue (Definition d)" "typeOf (Definition d) = Some (type d)"
      by (simp_all add: truthyValue_def typeOf_def)
    show ?thesis
      unfolding fd comparisonSuggestions_texts using nr tv by simp
  qed
  show ?thesis
  proof (intro exI [of _ this'] exI [of _ fd] conjI allI)
    show "generateSuggestions this = Inr this'" by (rule r(1))
    show "contextField this c = Inr fd" by (rule r(2))
    show "suggestions this'
          = filter (\<lambda>s. take (length (ctx.prefix c)) (itemText s) = ctx.prefix c)
              (comparisonSuggestions fd)" by (rule r(3))
    show "ctx.prefix c = [] \<longrightarrow> suggestions this' = comparisonSuggestions fd" by (rule all)
    show "{''='', ''!=''} \<subseteq> set (map itemText (comparisonSuggestions fd))" by (rule eq)
    show "\<not> truthy (field c)
                \<longrightarrow> map itemText (comparisonSuggestions fd) = [''='', ''!='']" by (rule none)
    fix m f d
    show "field c = Some f \<and> f \<noteq> []
                  \<and> models this (propertyKey (model c)) = Some m \<and> map_of m f = Some d
                \<longrightarrow> fd = Definition d \<and> type d \<noteq> ''relation''
                  \<and> (type d = ''str'' \<longrightarrow>
                       {''~'', ''!~'', ''startswith'', ''not startswith'', ''endswith'',
                        ''not endswith''}
                         \<subseteq> set (map itemText (comparisonSuggestions fd))
                       \<and> set (map itemText (comparisonSuggestions fd))
                           \<inter> {''>'', ''>='', ''<'', ''<=''} = {})
                  \<and> (type d \<noteq> ''bool'' \<and> type d \<noteq> ''str'' \<longrightarrow>
                       {''>'', ''>='', ''<'', ''<=''}
                         \<subseteq> set (map itemText (comparisonSuggestions fd)))
                  \<and> (type d \<noteq> ''bool'' \<longrightarrow>
                       {''in'', ''not in''}
                         \<subseteq> set (map itemText (comparisonSuggestions fd)))"
      by (intro impI) (rule own, assumption)
  qed
qed

theorem comparison_scope_operators_witness:
  "completionEnabled (typing (Some ''core.book'') testModels ''name '')
   \<and> truthy (currentModel (typing (Some ''core.book'') testModels ''name ''))
   \<and> getContext (typing (Some ''core.book'') testModels ''name '')
        (textareaValue (typing (Some ''core.book'') testModels ''name ''))
        (selectionStart (typing (Some ''core.book'') testModels ''name ''))
       = Inr \<lparr>modelStack = [Some ''core.book''], model = Some ''core.book'',
              field = Some ''name'', ctx.prefix = [], scope = Some ScopeComparison,
              currentFullToken = None\<rparr>
   \<and> map_of (the (map_of testModels ''core.book'')) ''name'' = Some (plainField ''str'' None)
   \<and> (\<exists>this'. generateSuggestions (typing (Some ''core.book'') testModels ''name '')
                  = Inr this'
         \<and> {''='', ''!='', ''~'', ''!~'', ''startswith'', ''not startswith'', ''endswith'',
             ''not endswith'', ''in'', ''not in''} \<subseteq> set (map itemText (suggestions this'))
         \<and> set (map itemText (suggestions this')) \<inter> {''>'', ''>='', ''<'', ''<=''} = {})
   \<and> getContext (typing (Some ''core.book'') testModels ''id '')
        (textareaValue (typing (Some ''core.book'') testModels ''id ''))
        (selectionStart (typing (Some ''core.book'') testModels ''id ''))
       = Inr \<lparr>modelStack = [Some ''core.book''], model = Some ''core.book'',
              field = Some ''id'', ctx.prefix = [], scope = Some ScopeComparison,
              currentFullToken = None\<rparr>
   \<and> map_of (the (map_of testModels ''core.book'')) ''id'' = Some (plainField ''int'' None)
   \<and> (\<exists>this'. generateSuggestions (typing (Some ''core.book'') testModels ''id '')
                  = Inr this'
         \<and> {''='', ''!='', ''>'', ''>='', ''<'', ''<='', ''in'', ''not in''}
             \<subseteq> set (map itemText (suggestions this')))"
proof -
  let ?e = "typing (Some ''core.book'') testModels ''name ''"
  let ?c = "\<lparr>modelStack = [Some ''core.book''], model = Some ''core.book'',
              field = Some ''name'', ctx.prefix = [], scope = Some ScopeComparison,
              currentFullToken = None\<rparr>"
  let ?e' = "typing (Some ''core.book'') testModels ''id ''"
  let ?c' = "\<lparr>modelStack = [Some ''core.book''], model = Some ''core.book'',
              field = Some ''id'', ctx.prefix = [], scope = Some ScopeComparison,
              currentFullToken = None\<rparr>"
  let ?m = "the (map_of testModels ''core.book'')"
  let ?s = "plainField ''str'' None"
  let ?i = "plainField ''int'' None"
  have en: "completionEnabled ?e" by code_simp
  have cm: "truthy (currentModel ?e)" by code_simp
  have sel: "selectionStart ?e = selectionEnd ?e" by code_simp
  have g: "getContext ?e (textareaValue ?e) (selectionStart ?e) = Inr ?c" by code_simp
  have sc: "scope ?c = Some ScopeComparison" by simp
  have m: "models ?e (propertyKey (model ?c)) = Some ?m" by code_simp
  have d: "map_of ?m ''name'' = Some ?s" by code_simp
  have ts: "type ?s = ''str''" "type ?s \<noteq> ''bool''" by (simp_all add: plainField_def)
  have en': "completionEnabled ?e'" by code_simp
  have cm': "truthy (currentModel ?e')" by code_simp
  have sel': "selectionStart ?e' = selectionEnd ?e'" by code_simp
  have g': "getContext ?e' (textareaValue ?e') (selectionStart ?e') = Inr ?c'" by code_simp
  have sc': "scope ?c' = Some ScopeComparison" by simp
  have m': "models ?e' (propertyKey (model ?c')) = Some ?m" by code_simp
  have d': "map_of ?m ''id'' = Some ?i" by code_simp
  have ti: "type ?i \<noteq> ''bool''" "type ?i \<noteq> ''str''" by (simp_all add: plainField_def)
  from comparison_scope_operators [OF en cm sel g sc] obtain this1 fd
    where r: "generateSuggestions ?e = Inr this1"
      "ctx.prefix ?c = [] \<longrightarrow> suggestions this1 = comparisonSuggestions fd"
      "{''='', ''!=''} \<subseteq> set (map itemText (comparisonSuggestions fd))"
      "\<forall>m f d. field ?c = Some f \<and> f \<noteq> []
                  \<and> models ?e (propertyKey (model ?c)) = Some m \<and> map_of m f = Some d
                \<longrightarrow> fd = Definition d \<and> type d \<noteq> ''relation''
                  \<and> (type d = ''str'' \<longrightarrow>
                       {''~'', ''!~'', ''startswith'', ''not startswith'', ''endswith'',
                        ''not endswith''}
                         \<subseteq> set (map itemText (comparisonSuggestions fd))
                       \<and> set (map itemText (comparisonSuggestions fd))
                           \<inter> {''>'', ''>='', ''<'', ''<=''} = {})
                  \<and> (type d \<noteq> ''bool'' \<and> type d \<noteq> ''str'' \<longrightarrow>
                       {''>'', ''>='', ''<'', ''<=''}
                         \<subseteq> set (map itemText (comparisonSuggestions fd)))
                  \<and> (type d \<noteq> ''bool'' \<longrightarrow>
                       {''in'', ''not in''}
                         \<subseteq> set (map itemText (comparisonSuggestions fd)))"
    by (elim exE conjE) (rule that, assumption+)
  from r(2) have a: "suggestions this1 = comparisonSuggestions fd" by simp
  have hyp: "field ?c = Some ''name'' \<and> ''name'' \<noteq> []
             \<and> models ?e (propertyKey (model ?c)) = Some ?m \<and> map_of ?m ''name'' = Some ?s"
    using m d by simp
  from r(4) [rule_format, OF hyp] ts
  have b: "{''~'', ''!~'', ''startswith'', ''not startswith'', ''endswith'', ''not endswith''}
             \<subseteq> set (map itemText (comparisonSuggestions fd))"
      "set (map itemText (comparisonSuggestions fd)) \<inter> {''>'', ''>='', ''<'', ''<=''} = {}"
      "{''in'', ''not in''} \<subseteq> set (map itemText (comparisonSuggestions fd))"
    by (elim conjE, simp)+
  from r(1) r(3) b have w: "\<exists>this'. generateSuggestions ?e = Inr this'
         \<and> {''='', ''!='', ''~'', ''!~'', ''startswith'', ''not startswith'', ''endswith'',
             ''not endswith'', ''in'', ''not in''} \<subseteq> set (map itemText (suggestions this'))
         \<and> set (map itemText (suggestions this')) \<inter> {''>'', ''>='', ''<'', ''<=''} = {}"
    unfolding a [symmetric] by simp
  from comparison_scope_operators [OF en' cm' sel' g' sc'] obtain this2 fd'
    where r': "generateSuggestions ?e' = Inr this2"
      "ctx.prefix ?c' = [] \<longrightarrow> suggestions this2 = comparisonSuggestions fd'"
      "{''='', ''!=''} \<subseteq> set (map itemText (comparisonSuggestions fd'))"
      "\<forall>m f d. field ?c' = Some f \<and> f \<noteq> []
                  \<and> models ?e' (propertyKey (model ?c')) = Some m \<and> map_of m f = Some d
                \<longrightarrow> fd' = Definition d \<and> type d \<noteq> ''relation''
                  \<and> (type d = ''str'' \<longrightarrow>
                       {''~'', ''!~'', ''startswith'', ''not startswith'', ''endswith'',
                        ''not endswith''}
                         \<subseteq> set (map itemText (comparisonSuggestions fd'))
                       \<and> set (map itemText (comparisonSuggestions fd'))
                           \<inter> {''>'', ''>='', ''<'', ''<=''} = {})
                  \<and> (type d \<noteq> ''bool'' \<and> type d \<noteq> ''str'' \<longrightarrow>
                       {''>'', ''>='', ''<'', ''<=''}
                         \<subseteq> set (map itemText (comparisonSuggestions fd')))
                  \<and> (type d \<noteq> ''bool'' \<longrightarrow>
                       {''in'', ''not in''}
                         \<subseteq> set (map itemText (comparisonSuggestions fd')))"
    by (elim exE conjE) (rule that, assumption+)
  from r'(2) have a': "suggestions this2 = comparisonSuggestions fd'" by simp
  have hyp': "field ?c' = Some ''id'' \<and> ''id'' \<noteq> []
             \<and> models ?e' (propertyKey (model ?c')) = Some ?m \<and> map_of ?m ''id'' = Some ?i"
    using m' d' by simp
  from r'(4) [rule_format, OF hyp'] ti
  have b': "{''>'', ''>='', ''<'', ''<=''} \<subseteq> set (map itemText (comparisonSuggestions fd'))"
      "{''in'', ''not in''} \<subseteq> set (map itemText (comparisonSuggestions fd'))"
    by (elim conjE, simp)+
  from r'(1) r'(3) b' have w': "\<exists>this'. generateSuggestions ?e' = Inr this'
         \<and> {''='', ''!='', ''>'', ''>='', ''<'', ''<='', ''in'', ''not in''}
             \<subseteq> set (map itemText (suggestions this'))"
    unfolding a' [symmetric] by simp
  show ?thesis
    using en cm g d w g' d' w' by (intro conjI) assumption+
qed

text \<open>
  Claim C9 as stated has the ordering operators offered for every field that is neither
  boolean nor a string, and \<open>in\<close> and \<open>not in\<close> for every field that is not boolean. The
  field \<open>author\<close> of \<open>core.book\<close> is a relation: after its name the context has the
  model of the relation and no field, and the test \<open>field && field.type !== 'bool'\<close>
  fails on the null field, so that only \<open>=\<close> and \<open>!=\<close> are offered.
\<close>

theorem relation_name_offers_equality_only:
  "map_of (the (map_of testModels ''core.book'')) ''author''
     = Some (plainField ''relation'' (Some ''auth.user''))
   \<and> getContext (typing (Some ''core.book'') testModels ''author '') ''author '' 7
     = Inr \<lparr>modelStack = [Some ''core.book'', Some ''auth.user''], model = Some ''auth.user'',
            field = None, ctx.prefix = [], scope = Some ScopeComparison,
            currentFullToken = None\<rparr>
   \<and> offered (typing (Some ''core.book'') testModels ''author '') = Some [''='', ''!='']"
  by code_simp

section \<open>Properties of the scopes of the context\<close>

text \<open>
  Claim C4, as amended. The \<open>field\<close> branch of \<open>getContext\<close> is entered with the
  prefix typed after the last token, or, when that prefix is a lone dot and there is a
  last token \<open>lt\<close>, with the text from the start of \<open>lt\<close> to the cursor: this is \<open>p\<close>.
  When \<open>p\<close> has several dot-separated parts, the last part becomes the prefix and the
  parts before it are resolved with \<open>resolveName\<close>. If the result has a truthy model
  (neither null nor the empty string) and a falsy field (null or the empty string),
  that model and its stack are those of the context; for every other result the scope
  and the model are null and the stack is the initial one; an exception of
  \<open>resolveName\<close> goes through. Nothing is said of a lone dot with no token before it.
\<close>

theorem field_scope_dotted_prefix:
  assumes cur: "cur = cursorState this text pos"
    and np: "\<not> (rawPrefix cur = '')'' \<and> whitespace cur = None)"
    and en: "entersFieldScope cur"
    and dot: "rawPrefix cur = ''.'' \<longrightarrow> lastToken cur = Some lt"
    and p: "p = (if rawPrefix cur = ''.'' then slice text (tokStart lt) pos else rawPrefix cur)"
    and parts: "1 < length (split p CHR ''.'')"
  shows "getContext this text pos =
     (case resolveName this (join (butlast (split p CHR ''.'')) ''.'') of
        Inl e \<Rightarrow> Inl e
      | Inr r \<Rightarrow>
          if truthy (model r) \<and> \<not> truthy (field r)
          then Inr \<lparr>modelStack = modelStack r, model = model r, field = None,
                     ctx.prefix = last (split p CHR ''.''), scope = Some ScopeField,
                     currentFullToken = fullToken cur\<rparr>
          else Inr \<lparr>modelStack = [currentModel this], model = None, field = None,
                     ctx.prefix = last (split p CHR ''.''), scope = None,
                     currentFullToken = fullToken cur\<rparr>)"
proof -
  have g: "getContext this text pos = fieldScope this text pos cur"
    using cur np en by (auto simp: getContext_def Let_def)
  have e: "(if rawPrefix cur = ''.''
            then (case lastToken cur of
                    None \<Rightarrow> Inl TypeError
                  | Some lt \<Rightarrow> Inr (slice text (tokStart lt) pos))
            else Inr (rawPrefix cur)) = Inr p"
    using dot p by simp
  show ?thesis
    unfolding g fieldScope_def e using parts
    by (simp add: nullContext_def Let_def split: sum.splits)
qed

theorem field_scope_dotted_prefix_witness:
  "\<not> (rawPrefix (cursorState (typing (Some ''core.book'') testModels ''id > 1 and author.'')
                    ''id > 1 and author.'' 18) = '')''
        \<and> whitespace (cursorState (typing (Some ''core.book'') testModels ''id > 1 and author.'')
                    ''id > 1 and author.'' 18) = None)
   \<and> entersFieldScope (cursorState (typing (Some ''core.book'') testModels ''id > 1 and author.'')
                    ''id > 1 and author.'' 18)
   \<and> rawPrefix (cursorState (typing (Some ''core.book'') testModels ''id > 1 and author.'')
                    ''id > 1 and author.'' 18) = ''.''
   \<and> lastToken (cursorState (typing (Some ''core.book'') testModels ''id > 1 and author.'')
                    ''id > 1 and author.'' 18)
       = Some \<lparr>tokName = ''NAME'', tokValue = ''author'', tokStart = 11, tokEnd = 17\<rparr>
   \<and> slice ''id > 1 and author.'' 11 18 = ''author.''
   \<and> 1 < length (split ''author.'' CHR ''.'')
   \<and> resolveName (typing (Some ''core.book'') testModels ''id > 1 and author.'') ''author''
       = Inr \<lparr>modelStack = [Some ''core.book'', Some ''auth.user''], model = Some ''auth.user'',
              field = None\<rparr>
   \<and> getContext (typing (Some ''core.book'') testModels ''id > 1 and author.'')
         ''id > 1 and author.'' 18
       = Inr \<lparr>modelStack = [Some ''core.book'', Some ''auth.user''], model = Some ''auth.user'',
              field = None, ctx.prefix = [], scope = Some ScopeField,
              currentFullToken = Some \<lparr>tokName = ''DOT'', tokValue = ''.'',
                                        tokStart = 17, tokEnd = 18\<rparr>\<rparr>"
proof -
  let ?e = "typing (Some ''core.book'') testModels ''id > 1 and author.''"
  let ?t = "''id > 1 and author.''"
  let ?cur = "cursorState ?e ?t 18"
  let ?lt = "\<lparr>tokName = ''NAME'', tokValue = ''author'', tokStart = 11, tokEnd = 17\<rparr>"
  have np: "\<not> (rawPrefix ?cur = '')'' \<and> whitespace ?cur = None)" by code_simp
  have en: "entersFieldScope ?cur" by code_simp
  have raw: "rawPrefix ?cur = ''.''" by code_simp
  have lt: "lastToken ?cur = Some ?lt" by code_simp
  have sl: "slice ?t 11 18 = ''author.''" by code_simp
  have dot: "rawPrefix ?cur = ''.'' \<longrightarrow> lastToken ?cur = Some ?lt"
    using lt by simp
  have p: "''author.'' = (if rawPrefix ?cur = ''.'' then slice ?t (tokStart ?lt) 18
                         else rawPrefix ?cur)"
    using raw sl by simp
  have parts: "1 < length (split ''author.'' CHR ''.'')" by code_simp
  have r: "resolveName ?e ''author''
       = Inr \<lparr>modelStack = [Some ''core.book'', Some ''auth.user''], model = Some ''auth.user'',
              field = None\<rparr>" by code_simp
  have j: "join (butlast (split ''author.'' CHR ''.'')) ''.'' = ''author''" by code_simp
  have l: "last (split ''author.'' CHR ''.'') = []" by code_simp
  have ft: "fullToken ?cur = Some \<lparr>tokName = ''DOT'', tokValue = ''.'',
                                        tokStart = 17, tokEnd = 18\<rparr>" by code_simp
  have "getContext ?e ?t 18
       = Inr \<lparr>modelStack = [Some ''core.book'', Some ''auth.user''], model = Some ''auth.user'',
              field = None, ctx.prefix = [], scope = Some ScopeField,
              currentFullToken = Some \<lparr>tokName = ''DOT'', tokValue = ''.'',
                                        tokStart = 17, tokEnd = 18\<rparr>\<rparr>"
    unfolding field_scope_dotted_prefix [OF refl np en dot p parts] j r l ft
    by (simp add: truthy_def)
  with np en raw lt sl parts r show ?thesis by simp
qed

text \<open>
  Claim C4 as stated swaps the model in whenever it is not null. A relation whose
  target is the model with the empty name resolves to a model that is not null with a
  null field, and the test \<open>resolvedName.model && !resolvedName.field\<close> fails on the
  empty string: the scope is set back to null. And on the text that is a lone dot the
  \<open>field\<close> branch is entered with no last token, whose start is read: \<open>getContext\<close>
  throws and no part of the prefix is resolved.
\<close>

theorem relation_to_empty_model_id:
  "resolveName (typing (Some ''core.book'') unnamedModels ''link.'') ''link''
     = Inr \<lparr>modelStack = [Some ''core.book'', Some []], model = Some [], field = None\<rparr>
   \<and> getContext (typing (Some ''core.book'') unnamedModels ''link.'') ''link.'' 5
     = Inr \<lparr>modelStack = [Some ''core.book''], model = None, field = None, ctx.prefix = [],
            scope = None,
            currentFullToken = Some \<lparr>tokName = ''DOT'', tokValue = ''.'', tokStart = 4,
                                      tokEnd = 5\<rparr>\<rparr>
   \<and> entersFieldScope (cursorState (typing (Some ''core.book'') testModels ''.'') ''.'' 1)
   \<and> rawPrefix (cursorState (typing (Some ''core.book'') testModels ''.'') ''.'' 1) = ''.''
   \<and> lastToken (cursorState (typing (Some ''core.book'') testModels ''.'') ''.'' 1) = None
   \<and> getContext (typing (Some ''core.book'') testModels ''.'') ''.'' 1 = Inl TypeError"
  by code_simp

text \<open>
  Claim C7, as amended. In the \<open>value\<close> scope with a resolved field \<open>f\<close>, when the
  prefix computed before the dispatch begins with a double quote, reading
  \<open>this.models[model][field]\<close> gives a value \<open>v\<close> that is neither \<open>undefined\<close> nor
  \<open>null\<close>, and the prefix returned is the rest after the quote exactly when \<open>v\<close> is of
  type \<open>str\<close> or has options, and the whole prefix with its quote otherwise. When the
  model of the context defines the field, with definition \<open>d\<close>, then \<open>v\<close> is \<open>d\<close>: the
  quote is stripped exactly when the field is of type \<open>str\<close> or has options; in
  particular it stays for an \<open>int\<close>, \<open>float\<close> or \<open>bool\<close> field that has no options.
\<close>

theorem value_prefix_quote:
  assumes g: "getContext this text pos = Inr c" and sc: "scope c = Some ScopeValue"
    and raw: "rawPrefix (cursorState this text pos) = CHR 0x22 # rest"
    and f: "field c = Some f"
  shows "\<exists>v. fieldAt this (model c) (Some f) = Inr v \<and> \<not> nullish v
           \<and> ctx.prefix c = (if typeOf v = Some ''str'' \<or> optionsOf v \<noteq> NoOptions then rest
                             else CHR 0x22 # rest)
           \<and> (\<forall>m d. models this (propertyKey (model c)) = Some m \<and> map_of m f = Some d
                \<longrightarrow> v = Definition d
                  \<and> ctx.prefix c = (if type d = ''str'' \<or> hasOptions d then rest
                                    else CHR 0x22 # rest)
                  \<and> (type d \<in> set [''int'', ''float'', ''bool''] \<and> \<not> hasOptions d
                       \<longrightarrow> ctx.prefix c = CHR 0x22 # rest))"
proof -
  let ?cur = "cursorState this text pos"
  from getContext_value [OF g sc] obtain nt where v: "valueScope this ?cur nt = Inr c" ..
  from v sc obtain r where r: "resolveName this (tokValue nt) = Inr r" "truthy (model r)"
    by (auto simp: valueScope_def nullContext_def split: sum.splits if_splits)
  from v r raw sc obtain w
    where w: "fieldAt this (model r) (field r) = Inr w" "\<not> nullish w"
      and c: "c = (nullContext this ?cur)
                    \<lparr>scope := Some ScopeValue, model := model r, field := field r,
                     modelStack := modelStack r,
                     ctx.prefix := (if typeOf w = Some ''str'' \<or> optionsOf w \<noteq> NoOptions
                                    then rest else CHR 0x22 # rest)\<rparr>"
    by (auto simp: valueScope_def nullContext_def Let_def split: sum.splits if_splits)
  from c f have fr: "field r = Some f" by simp
  from c have mr: "model c = model r" by simp
  from c have pc: "ctx.prefix c = (if typeOf w = Some ''str'' \<or> optionsOf w \<noteq> NoOptions
                                   then rest else CHR 0x22 # rest)" by simp
  have at: "fieldAt this (model c) (Some f) = Inr w"
    using w(1) fr mr by simp
  have own: "w = Definition d
      \<and> ctx.prefix c = (if type d = ''str'' \<or> hasOptions d then rest else CHR 0x22 # rest)
      \<and> (type d \<in> set [''int'', ''float'', ''bool''] \<and> \<not> hasOptions d
           \<longrightarrow> ctx.prefix c = CHR 0x22 # rest)"
    if h: "models this (propertyKey (model c)) = Some m \<and> map_of m f = Some d" for m d
  proof -
    from h have "fieldAt this (model c) (Some f) = Inr (Definition d)"
      by (simp add: fieldAt_model propertyKey_def)
    with at have wd: "w = Definition d" by simp
    show ?thesis
      unfolding pc wd by (simp add: typeOf_def optionsOf_def hasOptions_def)
  qed
  show ?thesis
  proof (intro exI [of _ w] conjI allI)
    show "fieldAt this (model c) (Some f) = Inr w" by (rule at)
    show "\<not> nullish w" by (rule w(2))
    show "ctx.prefix c = (if typeOf w = Some ''str'' \<or> optionsOf w \<noteq> NoOptions then rest
                          else CHR 0x22 # rest)" by (rule pc)
    fix m d
    show "models this (propertyKey (model c)) = Some m \<and> map_of m f = Some d
                \<longrightarrow> w = Definition d
                  \<and> ctx.prefix c = (if type d = ''str'' \<or> hasOptions d then rest
                                    else CHR 0x22 # rest)
                  \<and> (type d \<in> set [''int'', ''float'', ''bool''] \<and> \<not> hasOptions d
                       \<longrightarrow> ctx.prefix c = CHR 0x22 # rest)"
      by (intro impI) (rule own, assumption)
  qed
qed

theorem value_prefix_quote_witness:
  "getContext (typing (Some ''core.book'') testModels ''id = \"1'') ''id = \"1'' 7
     = Inr \<lparr>modelStack = [Some ''core.book''], model = Some ''core.book'', field = Some ''id'',
            ctx.prefix = ''\"1'', scope = Some ScopeValue,
            currentFullToken = Some \<lparr>tokName = ''INT_VALUE'', tokValue = ''1'', tokStart = 6,
                                      tokEnd = 7\<rparr>\<rparr>
   \<and> rawPrefix (cursorState (typing (Some ''core.book'') testModels ''id = \"1'') ''id = \"1'' 7)
       = CHR 0x22 # ''1''
   \<and> map_of (the (map_of testModels ''core.book'')) ''id'' = Some (plainField ''int'' None)
   \<and> \<not> hasOptions (plainField ''int'' None)
   \<and> fieldAt (typing (Some ''core.book'') testModels ''id = \"1'') (Some ''core.book'')
         (Some ''id'') = Inr (Definition (plainField ''int'' None))"
proof -
  let ?e = "typing (Some ''core.book'') testModels ''id = \"1''"
  let ?c = "\<lparr>modelStack = [Some ''core.book''], model = Some ''core.book'', field = Some ''id'',
            ctx.prefix = ''\"1'', scope = Some ScopeValue,
            currentFullToken = Some \<lparr>tokName = ''INT_VALUE'', tokValue = ''1'', tokStart = 6,
                                      tokEnd = 7\<rparr>\<rparr>"
  let ?m = "the (map_of testModels ''core.book'')"
  have g: "getContext ?e ''id = \"1'' 7 = Inr ?c" by code_simp
  have sc: "scope ?c = Some ScopeValue" by simp
  have raw: "rawPrefix (cursorState ?e ''id = \"1'' 7) = CHR 0x22 # ''1''" by code_simp
  have f: "field ?c = Some ''id''" by simp
  have m: "models ?e (propertyKey (model ?c)) = Some ?m" by code_simp
  have d: "map_of ?m ''id'' = Some (plainField ''int'' None)" by code_simp
  have o: "\<not> hasOptions (plainField ''int'' None)" by code_simp
  from value_prefix_quote [OF g sc raw f] obtain v
    where v: "fieldAt ?e (model ?c) (Some ''id'') = Inr v"
      "\<forall>m d. models ?e (propertyKey (model ?c)) = Some m \<and> map_of m ''id'' = Some d
                \<longrightarrow> v = Definition d
                  \<and> ctx.prefix ?c = (if type d = ''str'' \<or> hasOptions d then ''1''
                                     else CHR 0x22 # ''1'')
                  \<and> (type d \<in> set [''int'', ''float'', ''bool''] \<and> \<not> hasOptions d
                       \<longrightarrow> ctx.prefix ?c = CHR 0x22 # ''1'')"
    by (elim exE conjE) (rule that, assumption+)
  have hyp: "models ?e (propertyKey (model ?c)) = Some ?m
             \<and> map_of ?m ''id'' = Some (plainField ''int'' None)"
    using m d by simp
  from v(2) [rule_format, OF hyp] have "v = Definition (plainField ''int'' None)" by simp
  with v(1) have "fieldAt ?e (Some ''core.book'') (Some ''id'')
                  = Inr (Definition (plainField ''int'' None))" by simp
  with g raw d o show ?thesis by simp
qed

text \<open>
  Claim C7 as stated never strips the quote for a numeric field. The test is
  \<open>type === 'str' || options\<close>, so the quote typed after an integer field that has a
  list of options is stripped.
\<close>

theorem quote_stripped_for_integer_field_with_options:
  "getContext (typing (Some ''core.book'') ratedModels ''stars = \"'') ''stars = \"'' 9
     = Inr \<lparr>modelStack = [Some ''core.book''], model = Some ''core.book'',
            field = Some ''stars'', ctx.prefix = [], scope = Some ScopeValue,
            currentFullToken = None\<rparr>
   \<and> rawPrefix (cursorState (typing (Some ''core.book'') ratedModels ''stars = \"'')
                  ''stars = \"'' 9) = [CHR 0x22]
   \<and> map_of (the (map_of ratedModels ''core.book'')) ''stars''
       = Some \<lparr>type = ''int'', relation = None, options = OptionsArray [''1'', ''2'', ''3''],
               nullable = False\<rparr>"
  by code_simp

section \<open>Properties of the cache of value pages\<close>

lemma map_of_filter_other:
  "k' \<noteq> k \<Longrightarrow> map_of (filter (\<lambda>kv. fst kv \<noteq> k) es) k' = map_of es k'"
  by (induction es) auto

lemma cacheGet_found: "fst (cacheGet c k) = map_of (entries c) k"
  by (simp add: cacheGet_def split: option.splits)

lemma cacheGet_map_of: "map_of (entries (snd (cacheGet c k))) k' = map_of (entries c) k'"
  by (cases "k' = k") (auto simp: cacheGet_def map_of_filter_other split: option.splits)

lemma cacheSet_same:
  "1 \<le> capacity c \<Longrightarrow> map_of (entries (cacheSet c k v)) k = Some v"
  by (cases "capacity c") (simp_all add: cacheSet_def)

lemma cacheGet_capacity: "capacity (snd (cacheGet c k)) = capacity c"
  by (simp add: cacheGet_def split: option.splits)

lemma cachedItems_cacheGet: "cachedItems (snd (cacheGet c k)) k' = cachedItems c k'"
  by (simp add: cachedItems_def cacheGet_map_of)

lemma populateFieldOptions_items:
  assumes "populateFieldOptions this loadMore = Inr this'"
  shows "cachedItems (suggestionsCache this') k = cachedItems (suggestionsCache this) k"
proof -
  have get: "\<And>key. cachedItems (snd (cacheGet (suggestionsCache this) key)) k
                    = cachedItems (suggestionsCache this) k"
    by (rule cachedItems_cacheGet)
  show ?thesis
    using assms get
    by (auto simp: populateFieldOptions_def Let_def case_prod_beta
             split: sum.splits option.splits if_splits)
qed

text \<open>
  Claim C8. When a page is delivered for a key, it is applied exactly when its page
  number is one more than the page number cached for the key, a missing one counting
  as 0: then the items cached for the key are the former ones followed by the items of
  the page. Otherwise the page is discarded and the items cached for the key are the
  former ones. The rest of the callback, after the cache is written, leaves these items
  as they are. The capacity of the cache is at least 1, as the constructor of the
  engine makes sure.
\<close>

theorem page_applied_iff_next:
  assumes cap: "1 \<le> capacity (suggestionsCache this)"
  shows "(dataPage data = cachedPage (suggestionsCache this) key + 1 \<longrightarrow>
            snd (applyPage (suggestionsCache this) key data)
            \<and> cachedItems (fst (applyPage (suggestionsCache this) key data)) key
                = cachedItems (suggestionsCache this) key @ dataItems data)
         \<and> (dataPage data \<noteq> cachedPage (suggestionsCache this) key + 1 \<longrightarrow>
            \<not> snd (applyPage (suggestionsCache this) key data)
            \<and> cachedItems (fst (applyPage (suggestionsCache this) key data)) key
                = cachedItems (suggestionsCache this) key)
         \<and> (\<forall>this'. pageDelivered this key data = Inr this' \<longrightarrow>
               cachedItems (suggestionsCache this') key
               = cachedItems (fst (applyPage (suggestionsCache this) key data)) key)"
proof (intro conjI impI allI)
  let ?c = "suggestionsCache this"
  let ?hit = "case map_of (entries ?c) key of None \<Rightarrow> emptyEntry | Some e \<Rightarrow> e"
  have page: "pageOrZero ?hit = cachedPage ?c key"
    by (simp add: cachedPage_def pageOrZero_def emptyEntry_def split: option.splits)
  have its: "itemsOrEmpty ?hit = cachedItems ?c key"
    by (simp add: cachedItems_def itemsOrEmpty_def emptyEntry_def split: option.splits)
  have cap1: "1 \<le> capacity (snd (cacheGet ?c key))"
    using cap by (simp add: cacheGet_capacity)
  have ap: "applyPage ?c key data =
      (if dataPage data - 1 \<noteq> cachedPage ?c key then (snd (cacheGet ?c key), False)
       else (cacheSet (snd (cacheGet ?c key)) key
               \<lparr>items = Some (cachedItems ?c key @ dataItems data),
                page = Some (dataPage data), has_next = dataHasNext data,
                cachedLoading = False\<rparr>, True))"
    using page its cacheGet_found [of ?c key]
    by (simp add: applyPage_def split_beta)
  {
    assume "dataPage data = cachedPage ?c key + 1"
    then show "snd (applyPage ?c key data)"
      and "cachedItems (fst (applyPage ?c key data)) key
           = cachedItems ?c key @ dataItems data"
      using cacheSet_same [OF cap1]
      by (simp_all add: ap cachedItems_def [of "cacheSet _ _ _"] itemsOrEmpty_def)
  next
    assume "dataPage data \<noteq> cachedPage ?c key + 1"
    then show "\<not> snd (applyPage ?c key data)"
      and "cachedItems (fst (applyPage ?c key data)) key = cachedItems ?c key"
      by (auto simp: ap cachedItems_cacheGet)
  next
    fix this'
    assume d: "pageDelivered this key data = Inr this'"
    show "cachedItems (suggestionsCache this') key
          = cachedItems (fst (applyPage ?c key data)) key"
    proof (cases "snd (applyPage ?c key data)")
      case True
      then have "populateFieldOptions
                   (this\<lparr>suggestionsCache := fst (applyPage ?c key data), loading := False\<rparr>)
                   False = Inr this'"
        using d by (simp add: pageDelivered_def split: prod.splits)
      from populateFieldOptions_items [OF this] show ?thesis by simp
    next
      case False
      then have "this' = this\<lparr>suggestionsCache := fst (applyPage ?c key data), loading := False\<rparr>"
        using d by (auto simp: pageDelivered_def split: prod.splits)
      then show ?thesis by simp
    qed
  }
qed

theorem page_applied_iff_next_witness:
  "1 \<le> capacity (suggestionsCache cachedEngine)
   \<and> cachedPage (suggestionsCache cachedEngine) ''core.book.name|'' = 1
   \<and> cachedItems (fst (applyPage (suggestionsCache cachedEngine) ''core.book.name|''
         \<lparr>dataItems = [''Resurrection''], dataPage = 2, dataHasNext = False\<rparr>)) ''core.book.name|''
       = [''Anna Karenina'', ''War and Peace'', ''Resurrection'']
   \<and> cachedItems (fst (applyPage (suggestionsCache cachedEngine) ''core.book.name|''
         \<lparr>dataItems = [''Resurrection''], dataPage = 3, dataHasNext = False\<rparr>)) ''core.book.name|''
       = [''Anna Karenina'', ''War and Peace'']
   \<and> (\<exists>this'. pageDelivered cachedEngine ''core.book.name|''
                  \<lparr>dataItems = [''Resurrection''], dataPage = 2, dataHasNext = False\<rparr> = Inr this'
         \<and> cachedItems (suggestionsCache this') ''core.book.name|''
             = [''Anna Karenina'', ''War and Peace'', ''Resurrection''])"
proof -
  let ?k = "''core.book.name|''"
  let ?p2 = "\<lparr>dataItems = [''Resurrection''], dataPage = 2, dataHasNext = False\<rparr>"
  let ?p3 = "\<lparr>dataItems = [''Resurrection''], dataPage = 3, dataHasNext = False\<rparr>"
  have cap: "1 \<le> capacity (suggestionsCache cachedEngine)" by code_simp
  have pg: "cachedPage (suggestionsCache cachedEngine) ?k = 1" by code_simp
  have it: "cachedItems (suggestionsCache cachedEngine) ?k = [''Anna Karenina'', ''War and Peace'']"
    by code_simp
  have n2: "dataPage ?p2 = cachedPage (suggestionsCache cachedEngine) ?k + 1"
    using pg by simp
  have n3: "dataPage ?p3 \<noteq> cachedPage (suggestionsCache cachedEngine) ?k + 1"
    using pg by simp
  obtain this' where d: "pageDelivered cachedEngine ?k ?p2 = Inr this'"
  proof -
    have "case pageDelivered cachedEngine ?k ?p2 of Inl e \<Rightarrow> False | Inr t \<Rightarrow> True"
      by code_simp
    then show ?thesis using that by (cases "pageDelivered cachedEngine ?k ?p2") simp_all
  qed
  from page_applied_iff_next [OF cap, of ?p2 ?k] n2 it
  have a2: "cachedItems (fst (applyPage (suggestionsCache cachedEngine) ?k ?p2)) ?k
            = [''Anna Karenina'', ''War and Peace'', ''Resurrection'']"
    by simp
  from page_applied_iff_next [OF cap, of ?p3 ?k] n3 it
  have a3: "cachedItems (fst (applyPage (suggestionsCache cachedEngine) ?k ?p3)) ?k
            = [''Anna Karenina'', ''War and Peace'']"
    by simp
  from page_applied_iff_next [OF cap, of ?p2 ?k] d a2
  have "cachedItems (suggestionsCache this') ?k
        = [''Anna Karenina'', ''War and Peace'', ''Resurrection'']"
    by simp
  with d have "\<exists>this'. pageDelivered cachedEngine ?k ?p2 = Inr this'
         \<and> cachedItems (suggestionsCache this') ?k
             = [''Anna Karenina'', ''War and Peace'', ''Resurrection'']"
    by simp
  with cap pg a2 a3 show ?thesis by simp
qed

end
